theory Spec2Isabelle
  imports Main "HOL-Library.Word"
begin

section \<open>The quiz timer broadcaster: data model\<close>

text \<open>
  The repository holds two variants of one Go program: \<^verbatim>\<open>src/main.go\<close> (HTTP GET and POST,
  count-up mode, a mutex around the shared record) and \<^verbatim>\<open>src/unnamed/part_000\<close> (HTTP GET
  only, no count-up mode). Names of the first variant are the source's names; those of the
  second carry the suffix \<open>_p0\<close>.

  \<^item> \<^verbatim>\<open>time.Duration\<close> is a signed 64-bit count of nanoseconds: a \<open>64 word\<close>, read with
    \<open>sint\<close>; \<open>+\<close>, \<open>-\<close> and \<open>*\<close> wrap around as Go's do.
  \<^item> Go's \<^verbatim>\<open>int\<close> is taken as 64 bits wide (amd64, arm64): a \<open>64 word\<close> as well.
  \<^item> \<^verbatim>\<open>time.Time\<close> is an instant on the process's clock, in nanoseconds: an \<open>int\<close>.
    Every call of \<^verbatim>\<open>time.Now()\<close> is an argument \<open>now\<close> of the function that makes it.
  \<^item> Strings are byte lists, as Go's are; text in them is UTF-8, and white space is every
    rune of \<^verbatim>\<open>unicode.IsSpace\<close> in its UTF-8 encoding.
\<close>

type_synonym Duration = "64 word"
type_synonym GoInt = "64 word"
type_synonym Time = int

definition Second :: Duration where
  "Second = 1000000000"

definition maxDuration :: Duration where
  "maxDuration = 9223372036854775807"

definition minDuration :: Duration where
  "minDuration = - 9223372036854775808"

text \<open>
  \<^verbatim>\<open>time.Since(t)\<close>, evaluated when the clock reads \<open>now\<close>: the difference of the two
  instants, saturated at the ends of the \<^verbatim>\<open>Duration\<close> range as \<^verbatim>\<open>Time.Sub\<close> does.
\<close>

definition Since :: "Time \<Rightarrow> Time \<Rightarrow> Duration" where
  "Since now t =
     (let d = now - t in
      if d > 9223372036854775807 then maxDuration
      else if d < - 9223372036854775808 then minDuration
      else word_of_int d)"

record Question =
  Question :: string
  TimeLeft :: Duration
  Type :: string
  StartTime :: Time
  CountUp :: bool

text \<open>
  Effects that leave the process: a line printed by one of the colour printers (the format
  string without its final newline, and the arguments still unformatted), and the goroutine
  \<^verbatim>\<open>go sendCurrentQuestion()\<close>. \<open>Secs d\<close> stands for \<^verbatim>\<open>int(d.Seconds())\<close>, which Go computes
  in floating point.
\<close>

datatype printer = Success | ErrorC | Info | Help

datatype arg = S string | D GoInt | B bool | Secs Duration

datatype effect = Print printer string "arg list" | Go_sendCurrentQuestion

datatype proc = Running | Exited | Panicked

text \<open>
  The package-level variables \<^verbatim>\<open>question\<close>, \<^verbatim>\<open>pause\<close>, \<^verbatim>\<open>loggingEnabled\<close>, the local
  \<^verbatim>\<open>lastTime\<close> of \<^verbatim>\<open>startCLI\<close>, the effects so far, and whether the process still runs.
\<close>

record state =
  question :: Question
  pause :: bool
  loggingEnabled :: bool
  lastTime :: GoInt
  out :: "effect list"
  proc :: proc

definition initializeQuestion :: "Time \<Rightarrow> state \<Rightarrow> state" where
  "initializeQuestion now s =
     s\<lparr>question := \<lparr>Question = ''Default question'', TimeLeft = Second * 30,
                     Type = ''pomoc'', StartTime = now, CountUp = False\<rparr>\<rparr>"

text \<open>The state when \<^verbatim>\<open>startCLI\<close> enters its loop, the process having started at \<open>now\<close>.\<close>

definition init :: "Time \<Rightarrow> state" where
  "init now =
     initializeQuestion now
       \<lparr>question = \<lparr>Question = [], TimeLeft = 0, Type = [], StartTime = 0, CountUp = False\<rparr>,
        pause = False, loggingEnabled = False, lastTime = 0,
        out = [Print Info ''Server started. Type 'help' for available commands.'' []],
        proc = Running\<rparr>"

section \<open>The HTTP handlers of main.go\<close>

datatype body = QuestionJSON Question | ErrorJSON string

datatype response = JSON nat body

definition getQuestion :: "Time \<Rightarrow> state \<Rightarrow> response \<times> state" where
  "getQuestion now s =
     (let q = question s in
      if pause s then (JSON 200 (QuestionJSON q), s)
      else if CountUp q then
        (let q = q\<lparr>TimeLeft := Since now (StartTime q)\<rparr>
         in (JSON 200 (QuestionJSON q), s))
      else
        (let q = q\<lparr>TimeLeft := TimeLeft q - Since now (StartTime q)\<rparr>;
             q = (if sint (TimeLeft q) < 0 then q\<lparr>TimeLeft := 0, Type := ''end''\<rparr> else q)
         in (JSON 200 (QuestionJSON q), s)))"

text \<open>A Go \<^verbatim>\<open>map[string]bool\<close>; a key that is absent reads as \<^verbatim>\<open>false\<close>.\<close>

definition validTypes :: "string \<rightharpoonup> bool" where
  "validTypes = [''pomoc'' \<mapsto> True, ''rozstrel'' \<mapsto> True, ''waiting'' \<mapsto> True, ''end'' \<mapsto> True]"

definition index_bool :: "(string \<rightharpoonup> bool) \<Rightarrow> string \<Rightarrow> bool" where
  "index_bool m k = (case m k of None \<Rightarrow> False | Some b \<Rightarrow> b)"

text \<open>\<open>None\<close> is Go's \<^verbatim>\<open>nil\<close> error.\<close>

definition validateQuestion :: "Question \<Rightarrow> string option" where
  "validateQuestion q =
     (if sint (TimeLeft q) < 0 then Some ''time_left must be non-negative''
      else if \<not> index_bool validTypes (Type q)
        then Some ''invalid type. Must be one of: pomoc, rozstrel, waiting, end''
      else None)"

text \<open>
  \<^verbatim>\<open>setQuestion\<close>. The result of \<^verbatim>\<open>c.Bind(newQuestion)\<close> is an argument: \<open>Inl msg\<close> when
  the body does not decode, \<open>Inr q\<close> the decoded record otherwise.
\<close>

definition setQuestion :: "Time \<Rightarrow> string + Question \<Rightarrow> state \<Rightarrow> response \<times> state" where
  "setQuestion now bound s =
     (case bound of
        Inl err \<Rightarrow> (JSON 400 (ErrorJSON err), s)
      | Inr newQuestion \<Rightarrow>
          (case validateQuestion newQuestion of
             Some err \<Rightarrow> (JSON 400 (ErrorJSON err), s)
           | None \<Rightarrow>
               (let q = newQuestion\<lparr>StartTime := now\<rparr>;
                    q = (if Type q = ''end'' then q\<lparr>Question := ''END''\<rparr> else q);
                    s = s\<lparr>question := q, out := out s @ [Go_sendCurrentQuestion]\<rparr>
                in (JSON 200 (QuestionJSON (question s)), s))))"

section \<open>Library functions of Go used by the command shell\<close>

text \<open>
  White space. \<^verbatim>\<open>unicode.IsSpace\<close> holds of the runes U+0009 to U+000D, U+0020, U+0085,
  U+00A0, U+1680, U+2000 to U+200A, U+2028, U+2029, U+202F, U+205F and U+3000. In a string
  they are the six bytes of the table \<^verbatim>\<open>asciiSpace\<close> of package \<^verbatim>\<open>strings\<close>, the two-byte
  sequences C2 85 and C2 A0, and the three-byte sequences E1 9A 80, E2 80 80 to E2 80 8A,
  E2 80 A8, E2 80 A9, E2 80 AF, E2 81 9F and E3 80 80.
\<close>

definition asciiSpace :: "char \<Rightarrow> bool" where
  "asciiSpace c = (c = CHR 0x09 \<or> c = CHR 0x0A \<or> c = CHR 0x0B \<or> c = CHR 0x0C \<or> c = CHR 0x0D
                   \<or> c = CHR 0x20)"

definition space2 :: "char \<Rightarrow> char \<Rightarrow> bool" where
  "space2 c d = (c = CHR 0xC2 \<and> (d = CHR 0x85 \<or> d = CHR 0xA0))"

definition space3 :: "char \<Rightarrow> char \<Rightarrow> char \<Rightarrow> bool" where
  "space3 c d e =
     ((c = CHR 0xE1 \<and> d = CHR 0x9A \<and> e = CHR 0x80) \<or>
      (c = CHR 0xE2 \<and> d = CHR 0x80 \<and>
         ((128 \<le> (of_char e :: nat) \<and> (of_char e :: nat) \<le> 138) \<or>
          e = CHR 0xA8 \<or> e = CHR 0xA9 \<or> e = CHR 0xAF)) \<or>
      (c = CHR 0xE2 \<and> d = CHR 0x81 \<and> e = CHR 0x9F) \<or>
      (c = CHR 0xE3 \<and> d = CHR 0x80 \<and> e = CHR 0x80))"

text \<open>
  The width in bytes of the white-space rune that a string starts with, and 0 when it
  starts with none: what \<^verbatim>\<open>utf8.DecodeRuneInString\<close> and \<^verbatim>\<open>unicode.IsSpace\<close> find there.
\<close>

fun spaceWidth :: "string \<Rightarrow> nat" where
  "spaceWidth (c # d # e # _) =
     (if asciiSpace c then 1 else if space2 c d then 2 else if space3 c d e then 3 else 0)"
| "spaceWidth [c, d] = (if asciiSpace c then 1 else if space2 c d then 2 else 0)"
| "spaceWidth [c] = (if asciiSpace c then 1 else 0)"
| "spaceWidth [] = 0"

text \<open>
  A string read from left to right, as \<^verbatim>\<open>for _, r := range s\<close> reads it, cut into its
  white-space runes and the bytes between them. A byte of any other rune and a byte that is
  not UTF-8 are units of their own here: neither is white space, and neither starts a
  white-space rune inside another rune, since the first byte of every white-space rune is
  below 80 or above BF and the bytes after the first of any rune are from 80 to BF.
\<close>

fun runes :: "string \<Rightarrow> string list" where
  "runes [] = []"
| "runes (c # cs) =
     (let w = spaceWidth (c # cs) in
      if w = 0 then [c] # runes cs
      else (c # take (w - 1) cs) # runes (drop (w - 1) cs))"

definition isSpaceRune :: "string \<Rightarrow> bool" where
  "isSpaceRune r = (spaceWidth r \<noteq> 0)"

text \<open>
  \<^verbatim>\<open>strings.TrimFunc\<close> on the units of a string, and \<^verbatim>\<open>strings.TrimSpace(s)\<close>: the string
  without the white-space runes at its two ends. (Go reads the right end backwards, with
  \<^verbatim>\<open>utf8.DecodeLastRuneInString\<close>; it finds the same white-space runes there, a white-space
  rune at the end of a string being a unit of the string.)
\<close>

definition TrimFunc :: "('a \<Rightarrow> bool) \<Rightarrow> 'a list \<Rightarrow> 'a list" where
  "TrimFunc f rs = rev (dropWhile f (rev (dropWhile f rs)))"

definition TrimSpace :: "string \<Rightarrow> string" where
  "TrimSpace s = concat (TrimFunc isSpaceRune (runes s))"

text \<open>
  \<^verbatim>\<open>strings.Split(s, sep)\<close> for a separator of one byte: the pieces between the separators,
  empty pieces included; one empty piece for the empty string.
\<close>

fun Split :: "'a list \<Rightarrow> 'a \<Rightarrow> 'a list list" where
  "Split [] sep = [[]]"
| "Split (c # cs) sep =
     (if c = sep then [] # Split cs sep
      else (c # hd (Split cs sep)) # tl (Split cs sep))"

text \<open>
  \<^verbatim>\<open>strings.Fields(s)\<close>: the maximal runs of bytes between white-space runes. \<open>cur\<close> is the
  run being read.
\<close>

fun fields_from :: "string \<Rightarrow> string list \<Rightarrow> string list" where
  "fields_from cur [] = (if cur = [] then [] else [cur])"
| "fields_from cur (r # rs) =
     (if isSpaceRune r then (if cur = [] then fields_from [] rs else cur # fields_from [] rs)
      else fields_from (cur @ r) rs)"

definition Fields :: "string \<Rightarrow> string list" where
  "Fields s = fields_from [] (runes s)"

fun Join :: "string list \<Rightarrow> string \<Rightarrow> string" where
  "Join [] sep = []"
| "Join [x] sep = x"
| "Join (x # y # ys) sep = x @ sep @ Join (y # ys) sep"

definition isDigit :: "char \<Rightarrow> bool" where
  "isDigit c = (48 \<le> (of_char c :: nat) \<and> (of_char c :: nat) \<le> 57)"

fun decimal :: "nat \<Rightarrow> string \<Rightarrow> nat" where
  "decimal n [] = n"
| "decimal n (c # cs) = decimal (n * 10 + ((of_char c :: nat) - 48)) cs"

text \<open>
  \<^verbatim>\<open>strconv.Atoi(s)\<close>: an optional sign and one or more decimal digits, whose value fits the
  64-bit \<^verbatim>\<open>int\<close>. \<open>None\<close> is a non-nil error (syntax or range), which is all the caller reads.
\<close>

definition Atoi :: "string \<Rightarrow> GoInt option" where
  "Atoi s =
     (case s of
        [] \<Rightarrow> None
      | c # cs \<Rightarrow>
          (let ds = (if c = CHR ''-'' \<or> c = CHR ''+'' then cs else s) in
           if ds = [] \<or> \<not> list_all isDigit ds then None
           else
             (let v = decimal 0 ds in
              if c = CHR ''-'' then (if 9223372036854775808 < v then None else Some (- word_of_nat v))
              else (if 9223372036854775807 < v then None else Some (word_of_nat v)))))"

section \<open>The command shell of main.go\<close>

definition print :: "printer \<Rightarrow> string \<Rightarrow> arg list \<Rightarrow> state \<Rightarrow> state" where
  "print p fmt as s = s\<lparr>out := out s @ [Print p fmt as]\<rparr>"

definition printHelp :: "state \<Rightarrow> state" where
  "printHelp s =
     s\<lparr>out := out s @
       [Print Help ''Available commands:'' [],
        Print Help ''  question <text>          - Set new question'' [],
        Print Help ''  time <seconds|last|pause|countUp> - Set time left or control timer'' [],
        Print Help ''  type <type>              - Set type (pomoc/rozstrel/waiting/end)'' [],
        Print Help ''  status                   - Show current question status'' [],
        Print Help ''  logging <on/off>         - Enable/disable request logging'' [],
        Print Help ''  help                     - Show this help'' [],
        Print Help ''  exit                     - Exit the program'' []]\<rparr>"

text \<open>The cases of the \<^verbatim>\<open>switch command\<close> of \<^verbatim>\<open>startCLI\<close>, one definition each.\<close>

definition case_logging :: "string list \<Rightarrow> state \<Rightarrow> state" where
  "case_logging args s =
     (if length args \<noteq> 2 then print ErrorC ''Usage: logging <on/off>'' [] s
      else if args ! 1 = ''on''
        then print Success ''Request logging enabled'' [] (s\<lparr>loggingEnabled := True\<rparr>)
      else if args ! 1 = ''off''
        then print Success ''Request logging disabled'' [] (s\<lparr>loggingEnabled := False\<rparr>)
      else print ErrorC (''Invalid option. Use 'on' or 'off'' @ [CHR 0x27]) [] s)"

definition case_exit :: "state \<Rightarrow> state" where
  "case_exit s = (print Success ''Shutting down server...'' [] s)\<lparr>proc := Exited\<rparr>"

definition case_question :: "Time \<Rightarrow> string list \<Rightarrow> state \<Rightarrow> state" where
  "case_question now args s =
     (if length args < 2 then print ErrorC ''Usage: question <text>'' [] s
      else
        (let s = s\<lparr>question := (question s)\<lparr>Question := Join (tl args) '' '', StartTime := now\<rparr>\<rparr>;
             s = print Success ''Question set to: %s'' [S (Question (question s))] s
         in s\<lparr>out := out s @ [Go_sendCurrentQuestion]\<rparr>))"

definition case_time :: "Time \<Rightarrow> string list \<Rightarrow> state \<Rightarrow> state" where
  "case_time now args s =
     (if length args \<noteq> 2 then print ErrorC ''Usage: time <seconds|last|pause|countUp>'' [] s
      else if args ! 1 = ''last'' then
        print Success ''Time left set to: %d seconds'' [D (lastTime s)]
          (s\<lparr>question := (question s)\<lparr>TimeLeft := lastTime s * Second, StartTime := now,
                                      CountUp := False\<rparr>\<rparr>)
      else if args ! 1 = ''pause'' then
        (let s = s\<lparr>pause := \<not> pause s\<rparr> in
         if pause s then print Success ''Question paused'' [] s
         else (let s = print Success ''Question unpaused'' [] s
               in s\<lparr>question := (question s)\<lparr>StartTime := now\<rparr>\<rparr>))
      else if args ! 1 = ''countUp'' then
        print Success ''Counting up'' []
          (s\<lparr>question := (question s)\<lparr>StartTime := now, CountUp := True\<rparr>\<rparr>)
      else
        (case Atoi (args ! 1) of
           None \<Rightarrow> print ErrorC ''Time must be a non-negative integer'' [] s
         | Some timeLeft \<Rightarrow>
             if sint timeLeft < 0 then print ErrorC ''Time must be a non-negative integer'' [] s
             else
               print Success ''Time left set to: %d seconds'' [D timeLeft]
                 (s\<lparr>lastTime := timeLeft,
                    question := (question s)\<lparr>TimeLeft := timeLeft * Second, StartTime := now,
                                               CountUp := False\<rparr>\<rparr>)))"

definition case_type :: "string list \<Rightarrow> state \<Rightarrow> state" where
  "case_type args s =
     (if length args \<noteq> 2 then print ErrorC ''Usage: type <pomoc/rozstrel/waiting/end>'' [] s
      else if \<not> index_bool validTypes (args ! 1)
        then print ErrorC ''Invalid type. Must be: pomoc, rozstrel, waiting, or end'' [] s
      else
        (let q = (question s)\<lparr>Type := args ! 1\<rparr>;
             q = (if Type q = ''end'' then q\<lparr>Question := ''END''\<rparr> else q)
         in print Success ''Type set to: %s'' [S (args ! 1)] (s\<lparr>question := q\<rparr>)))"

definition case_status :: "Time \<Rightarrow> state \<Rightarrow> state" where
  "case_status now s =
     (let s = print Info ''Current question status:'' [] s;
          s = print Info ''Question: %s'' [S (Question (question s))] s;
          s = (if CountUp (question s) then
                 (let elapsedTime = Since now (StartTime (question s))
                  in print Info ''Elapsed time: %d seconds'' [Secs elapsedTime] s)
               else
                 (let timeLeft = TimeLeft (question s) - Since now (StartTime (question s));
                      timeLeft = (if sint timeLeft < 0 then 0 else timeLeft)
                  in print Info ''Time left: %d seconds'' [Secs timeLeft] s));
          s = print Info ''Type: %s'' [S (Type (question s))] s
      in print Info ''Logging: %v'' [B (loggingEnabled s)] s)"

text \<open>
  The switch. \<^verbatim>\<open>args[0]\<close> of an empty \<^verbatim>\<open>args\<close> is a run-time panic of Go.
\<close>

definition startCLI_switch :: "Time \<Rightarrow> string list \<Rightarrow> state \<Rightarrow> state" where
  "startCLI_switch now args s =
     (case args of
        [] \<Rightarrow> s\<lparr>proc := Panicked\<rparr>
      | command # _ \<Rightarrow>
          if command = ''logging'' then case_logging args s
          else if command = ''exit'' then case_exit s
          else if command = ''question'' then case_question now args s
          else if command = ''time'' then case_time now args s
          else if command = ''type'' then case_type args s
          else if command = ''status'' then case_status now s
          else if command = ''help'' then printHelp s
          else print ErrorC ''Type 'help' for available commands'' []
                 (print ErrorC ''Unknown command: %s'' [S command] s))"

text \<open>The body of the loop \<^verbatim>\<open>for _, cmd := range commands\<close>, for one piece of the line.\<close>

definition startCLI_cmd :: "Time \<Rightarrow> string \<Rightarrow> state \<Rightarrow> state" where
  "startCLI_cmd now cmd s =
     (let cmd = TrimSpace cmd in
      if cmd = [] then s
      else startCLI_switch now (Fields cmd) s)"

text \<open>
  The loop itself. \<open>clock i\<close> is what \<^verbatim>\<open>time.Now()\<close> reads during the iteration of index
  \<open>i\<close>; after \<^verbatim>\<open>os.Exit\<close> or a panic nothing more runs.
\<close>

fun startCLI_commands :: "(nat \<Rightarrow> Time) \<Rightarrow> nat \<Rightarrow> string list \<Rightarrow> state \<Rightarrow> state" where
  "startCLI_commands clock i [] s = s"
| "startCLI_commands clock i (cmd # commands) s =
     (if proc s \<noteq> Running then s
      else startCLI_commands clock (Suc i) commands (startCLI_cmd (clock i) cmd s))"

text \<open>The body of the outer loop of \<^verbatim>\<open>startCLI\<close>, for a line that was read without error.\<close>

definition startCLI_line :: "(nat \<Rightarrow> Time) \<Rightarrow> string \<Rightarrow> state \<Rightarrow> state" where
  "startCLI_line clock line s =
     (let input = TrimSpace line in
      if input = [] then s
      else startCLI_commands clock 0 (Split input CHR '';'') s)"

section \<open>The variant of part_000\<close>

text \<open>
  The record has no \<^verbatim>\<open>CountUp\<close> field, the only endpoint is \<^verbatim>\<open>GET /get-question\<close>, and the
  command loop is in \<^verbatim>\<open>main\<close>.
\<close>

record Question_p0 =
  Question_p0 :: string
  TimeLeft_p0 :: Duration
  Type_p0 :: string
  StartTime_p0 :: Time

record state_p0 =
  question_p0 :: Question_p0
  Pause_p0 :: bool
  loggingEnabled_p0 :: bool
  lastTime_p0 :: GoInt
  out_p0 :: "effect list"
  proc_p0 :: proc

text \<open>The state when \<^verbatim>\<open>main\<close> enters its loop, the process having started at \<open>now\<close>.\<close>

definition init_p0 :: "Time \<Rightarrow> state_p0" where
  "init_p0 now =
     \<lparr>question_p0 = \<lparr>Question_p0 = ''Default question'', TimeLeft_p0 = Second * 30,
                       Type_p0 = ''pomoc'', StartTime_p0 = now\<rparr>,
      Pause_p0 = False, loggingEnabled_p0 = False, lastTime_p0 = 0,
      out_p0 = [Print Info ''Server started. Type 'help' for available commands'' []],
      proc_p0 = Running\<rparr>"

datatype body_p0 = QuestionJSON_p0 Question_p0

datatype response_p0 = JSON_p0 nat body_p0

definition getQuestion_p0 :: "Time \<Rightarrow> state_p0 \<Rightarrow> response_p0 \<times> state_p0" where
  "getQuestion_p0 now s =
     (let q = \<lparr>Question_p0 = Question_p0 (question_p0 s),
                TimeLeft_p0 = TimeLeft_p0 (question_p0 s),
                Type_p0 = Type_p0 (question_p0 s),
                StartTime_p0 = StartTime_p0 (question_p0 s)\<rparr> in
      if Pause_p0 s then (JSON_p0 200 (QuestionJSON_p0 q), s)
      else
        (let q = q\<lparr>TimeLeft_p0 :=
                     TimeLeft_p0 (question_p0 s) - Since now (StartTime_p0 (question_p0 s))\<rparr>;
             q = (if sint (TimeLeft_p0 q) < 0 then q\<lparr>TimeLeft_p0 := 0, Type_p0 := ''end''\<rparr>
                  else q)
         in (JSON_p0 200 (QuestionJSON_p0 q), s)))"

definition print_p0 :: "printer \<Rightarrow> string \<Rightarrow> arg list \<Rightarrow> state_p0 \<Rightarrow> state_p0" where
  "print_p0 p fmt as s = s\<lparr>out_p0 := out_p0 s @ [Print p fmt as]\<rparr>"

definition printHelp_p0 :: "state_p0 \<Rightarrow> state_p0" where
  "printHelp_p0 s =
     s\<lparr>out_p0 := out_p0 s @
       [Print Help ''Available commands:'' [],
        Print Help ''  question <text>          - Set new question'' [],
        Print Help ''  time <seconds|last|pause>- Set time left or control timer'' [],
        Print Help ''  type <type>              - Set type (pomoc/rozstrel/waiting/end)'' [],
        Print Help ''  status                   - Show current question status'' [],
        Print Help ''  logging <on/off>         - Enable/disable request logging'' [],
        Print Help ''  help                     - Show this help'' [],
        Print Help ''  exit                     - Exit the program'' []]\<rparr>"

definition case_logging_p0 :: "string list \<Rightarrow> state_p0 \<Rightarrow> state_p0" where
  "case_logging_p0 args s =
     (if length args \<noteq> 2 then print_p0 ErrorC ''Usage: logging <on/off>'' [] s
      else if args ! 1 = ''on''
        then print_p0 Success ''Request logging enabled'' [] (s\<lparr>loggingEnabled_p0 := True\<rparr>)
      else if args ! 1 = ''off''
        then print_p0 Success ''Request logging disabled'' [] (s\<lparr>loggingEnabled_p0 := False\<rparr>)
      else print_p0 ErrorC (''Invalid option. Use 'on' or 'off'' @ [CHR 0x27]) [] s)"

definition case_exit_p0 :: "state_p0 \<Rightarrow> state_p0" where
  "case_exit_p0 s = (print_p0 Success ''Shutting down server...'' [] s)\<lparr>proc_p0 := Exited\<rparr>"

definition case_question_p0 :: "Time \<Rightarrow> string list \<Rightarrow> state_p0 \<Rightarrow> state_p0" where
  "case_question_p0 now args s =
     (if length args < 2 then print_p0 ErrorC ''Usage: question <text>'' [] s
      else
        (let s = s\<lparr>question_p0 :=
                     (question_p0 s)\<lparr>Question_p0 := Join (tl args) '' '', StartTime_p0 := now\<rparr>\<rparr>
         in print_p0 Success ''Question set to: %s'' [S (Question_p0 (question_p0 s))] s))"

definition case_time_p0 :: "Time \<Rightarrow> string list \<Rightarrow> state_p0 \<Rightarrow> state_p0" where
  "case_time_p0 now args s =
     (if length args \<noteq> 2 then print_p0 ErrorC ''Usage: time <seconds|last|pause>'' [] s
      else if args ! 1 = ''last'' then
        print_p0 Success ''Time left set to: %d seconds'' [D (lastTime_p0 s)]
          (s\<lparr>question_p0 :=
               (question_p0 s)\<lparr>TimeLeft_p0 := lastTime_p0 s * Second, StartTime_p0 := now\<rparr>\<rparr>)
      else if args ! 1 = ''pause'' then
        (let s = s\<lparr>Pause_p0 := \<not> Pause_p0 s\<rparr> in
         if Pause_p0 s then print_p0 Success ''Question paused'' [] s
         else (let s = print_p0 Success ''Question unpaused'' [] s
               in s\<lparr>question_p0 :=
                      (question_p0 s)\<lparr>StartTime_p0 := now,
                                       TimeLeft_p0 := lastTime_p0 s * Second\<rparr>\<rparr>))
      else
        (case Atoi (args ! 1) of
           None \<Rightarrow> print_p0 ErrorC ''Time must be a positive number'' [] s
         | Some timeLeft \<Rightarrow>
             if sint timeLeft < 0 then print_p0 ErrorC ''Time must be a positive number'' [] s
             else
               print_p0 Success ''Time left set to: %d seconds'' [D timeLeft]
                 (s\<lparr>lastTime_p0 := timeLeft,
                    question_p0 :=
                      (question_p0 s)\<lparr>TimeLeft_p0 := timeLeft * Second, StartTime_p0 := now\<rparr>\<rparr>)))"

definition case_type_p0 :: "string list \<Rightarrow> state_p0 \<Rightarrow> state_p0" where
  "case_type_p0 args s =
     (if length args \<noteq> 2 then print_p0 ErrorC ''Usage: type <pomoc/rozstrel/waiting/end>'' [] s
      else if \<not> index_bool validTypes (args ! 1)
        then print_p0 ErrorC ''Invalid type. Must be: pomoc, rozstrel, waiting, or end'' [] s
      else
        print_p0 Success ''Type set to: %s'' [S (args ! 1)]
          (s\<lparr>question_p0 := (question_p0 s)\<lparr>Type_p0 := args ! 1\<rparr>\<rparr>))"

definition case_status_p0 :: "Time \<Rightarrow> state_p0 \<Rightarrow> state_p0" where
  "case_status_p0 now s =
     (let s = print_p0 Info ''Current question status:'' [] s;
          s = print_p0 Info ''Question: %s'' [S (Question_p0 (question_p0 s))] s;
          timeLeft = TimeLeft_p0 (question_p0 s) - Since now (StartTime_p0 (question_p0 s));
          timeLeft = (if sint timeLeft < 0 then 0 else timeLeft);
          s = print_p0 Info ''Time left: %d seconds'' [Secs timeLeft] s;
          s = print_p0 Info ''Type: %s'' [S (Type_p0 (question_p0 s))] s
      in print_p0 Info ''Logging: %v'' [B (loggingEnabled_p0 s)] s)"

definition main_switch_p0 :: "Time \<Rightarrow> string list \<Rightarrow> state_p0 \<Rightarrow> state_p0" where
  "main_switch_p0 now args s =
     (case args of
        [] \<Rightarrow> s\<lparr>proc_p0 := Panicked\<rparr>
      | command # _ \<Rightarrow>
          if command = ''logging'' then case_logging_p0 args s
          else if command = ''exit'' then case_exit_p0 s
          else if command = ''question'' then case_question_p0 now args s
          else if command = ''time'' then case_time_p0 now args s
          else if command = ''type'' then case_type_p0 args s
          else if command = ''status'' then case_status_p0 now s
          else if command = ''help'' then printHelp_p0 s
          else print_p0 ErrorC ''Type 'help' for available commands'' []
                 (print_p0 ErrorC ''Unknown command: %s'' [S command] s))"

definition main_cmd_p0 :: "Time \<Rightarrow> string \<Rightarrow> state_p0 \<Rightarrow> state_p0" where
  "main_cmd_p0 now cmd s =
     (let cmd = TrimSpace cmd in
      if cmd = [] then s
      else main_switch_p0 now (Fields cmd) s)"

fun main_commands_p0 :: "(nat \<Rightarrow> Time) \<Rightarrow> nat \<Rightarrow> string list \<Rightarrow> state_p0 \<Rightarrow> state_p0" where
  "main_commands_p0 clock i [] s = s"
| "main_commands_p0 clock i (cmd # commands) s =
     (if proc_p0 s \<noteq> Running then s
      else main_commands_p0 clock (Suc i) commands (main_cmd_p0 (clock i) cmd s))"

definition main_line_p0 :: "(nat \<Rightarrow> Time) \<Rightarrow> string \<Rightarrow> state_p0 \<Rightarrow> state_p0" where
  "main_line_p0 clock line s =
     (let input = TrimSpace line in
      if input = [] then s
      else main_commands_p0 clock 0 (Split input CHR '';'') s)"

section \<open>Runs of the process\<close>

text \<open>Requests \<^verbatim>\<open>GET /get-question\<close> served one after the other, at the given instants.\<close>

fun GETs :: "Time list \<Rightarrow> state \<Rightarrow> response list \<times> state" where
  "GETs [] s = ([], s)"
| "GETs (now # ts) s =
     (let (r, s) = getQuestion now s;
          (rs, s) = GETs ts s
      in (r # rs, s))"

fun GETs_p0 :: "Time list \<Rightarrow> state_p0 \<Rightarrow> response_p0 list \<times> state_p0" where
  "GETs_p0 [] s = ([], s)"
| "GETs_p0 (now # ts) s =
     (let (r, s) = getQuestion_p0 now s;
          (rs, s) = GETs_p0 ts s
      in (r # rs, s))"

text \<open>
  What can happen to the process of main.go: the shell runs one piece of a line, or a
  handler serves a request. A process that has exited serves nothing.
\<close>

datatype event = Cmd Time string | GET Time | POST Time "string + Question"

fun step :: "state \<Rightarrow> event \<Rightarrow> state" where
  "step s (Cmd now cmd) = (if proc s \<noteq> Running then s else startCLI_cmd now cmd s)"
| "step s (GET now) = (if proc s \<noteq> Running then s else snd (getQuestion now s))"
| "step s (POST now bound) = (if proc s \<noteq> Running then s else snd (setQuestion now bound s))"

definition run :: "state \<Rightarrow> event list \<Rightarrow> state" where
  "run s evs = foldl step s evs"

text \<open>An event that is a command \<^verbatim>\<open>time <M>\<close> with \<open>M\<close> a non-negative integer.\<close>

definition numeric_time :: "event \<Rightarrow> bool" where
  "numeric_time e =
     (case e of
        Cmd now cmd \<Rightarrow>
          (case Fields (TrimSpace cmd) of
             [c, a] \<Rightarrow> c = ''time'' \<and> (case Atoi a of None \<Rightarrow> False | Some m \<Rightarrow> 0 \<le> sint m)
           | _ \<Rightarrow> False)
      | _ \<Rightarrow> False)"

section \<open>Decimal numerals\<close>

text \<open>
  The decimal numeral of a natural number, as an operator types it (\<^verbatim>\<open>strconv.Itoa\<close> on a
  non-negative argument): the strings that the commands \<^verbatim>\<open>time <N>\<close> are made of.
\<close>

fun Itoa :: "nat \<Rightarrow> string" where
  "Itoa n = (if n < 10 then [char_of (48 + n)] else Itoa (n div 10) @ [char_of (48 + n mod 10)])"

declare Itoa.simps [simp del]

section \<open>The command interpreter as the specification words it\<close>

text \<open>
  The specification: split the line on \<^verbatim>\<open>;\<close>, trim each piece, skip the empty ones, apply
  the rest in order. Each command keeps the index of its piece, at which the clock is read.
\<close>

definition spec_commands :: "string \<Rightarrow> (nat \<times> string) list" where
  "spec_commands line =
     (let pieces = map TrimSpace (Split line CHR '';'')
      in filter (\<lambda>(i, cmd). cmd \<noteq> []) (zip [0 ..< length pieces] pieces))"

definition spec_apply :: "(nat \<Rightarrow> Time) \<Rightarrow> state \<Rightarrow> nat \<times> string \<Rightarrow> state" where
  "spec_apply clock s ic =
     (if proc s \<noteq> Running then s else startCLI_switch (clock (fst ic)) (Fields (snd ic)) s)"

definition spec_line :: "(nat \<Rightarrow> Time) \<Rightarrow> string \<Rightarrow> state \<Rightarrow> state" where
  "spec_line clock line s = foldl (spec_apply clock) s (spec_commands line)"

text \<open>
  The commands that the switch of main.go refuses: \<^verbatim>\<open>logging\<close>, \<^verbatim>\<open>time\<close> and \<^verbatim>\<open>type\<close>
  without exactly one argument, \<^verbatim>\<open>question\<close> without a word of text, an argument that the
  command does not know, and a leading word that is no command.
\<close>

definition refused :: "string list \<Rightarrow> bool" where
  "refused args =
     (case args of
        [] \<Rightarrow> False
      | command # rest \<Rightarrow>
          if command = ''logging'' then length rest \<noteq> 1 \<or> hd rest \<notin> {''on'', ''off''}
          else if command = ''question'' then rest = []
          else if command = ''time'' then
            length rest \<noteq> 1 \<or>
            (hd rest \<notin> {''last'', ''pause'', ''countUp''} \<and>
             (case Atoi (hd rest) of None \<Rightarrow> True | Some n \<Rightarrow> sint n < 0))
          else if command = ''type'' then
            length rest \<noteq> 1 \<or> hd rest \<notin> {''pomoc'', ''rozstrel'', ''waiting'', ''end''}
          else command \<notin> {''exit'', ''status'', ''help''})"

definition is_error :: "effect \<Rightarrow> bool" where
  "is_error e = (case e of Print p fmt as \<Rightarrow> p = ErrorC | Go_sendCurrentQuestion \<Rightarrow> False)"

section \<open>Properties: arithmetic of durations\<close>

lemma sint_diff_no_overflow:
  fixes a b :: Duration
  assumes "- 9223372036854775808 \<le> sint a - sint b" "sint a - sint b \<le> 9223372036854775807"
  shows "sint (a - b) = sint a - sint b"
  using assms by (simp add: sint_word_diff signed_take_bit_int_eq_self)

lemma sint_of_int_in_range:
  "- 9223372036854775808 \<le> k \<Longrightarrow> k \<le> 9223372036854775807 \<Longrightarrow>
     sint (word_of_int k :: Duration) = k"
  by (simp add: sint_sbintrunc' signed_take_bit_int_eq_self)

lemma sint_Since:
  "sint (Since now t) = max (- 9223372036854775808) (min 9223372036854775807 (now - t))"
  by (simp add: Since_def Let_def maxDuration_def minDuration_def sint_of_int_in_range
      del: of_int_diff)

lemma Since_at_deadline: "Since (t + sint (d :: Duration)) t = d"
proof -
  have "sint d \<le> 9223372036854775807" "- 9223372036854775808 \<le> sint d"
    using sint_lt [of d] sint_ge [of d] by simp_all
  then show ?thesis by (simp add: Since_def)
qed

lemma remaining_negative:
  fixes d :: Duration
  assumes "0 \<le> sint d" "sint d < 9223372036854775807" "t + sint d < now"
  shows "sint (d - Since now t) < 0"
proof -
  have b: "0 \<le> sint (Since now t)" "sint d < sint (Since now t)"
    using assms by (simp_all add: sint_Since)
  have "sint (Since now t) \<le> 9223372036854775807"
    using sint_lt [of "Since now t"] by simp
  with b assms have "sint (d - Since now t) = sint d - sint (Since now t)"
    by (intro sint_diff_no_overflow) simp_all
  with b show ?thesis by simp
qed

lemma index_bool_validTypes:
  "index_bool validTypes t \<longleftrightarrow> t \<in> {''pomoc'', ''rozstrel'', ''waiting'', ''end''}"
  by (simp add: index_bool_def validTypes_def)

section \<open>Properties: white space, splitting, trimming, fields\<close>

lemmas string_eval =
  TrimSpace_def TrimFunc_def Fields_def isSpaceRune_def asciiSpace_def space2_def space3_def
  Let_def

text \<open>Unicode white space in UTF-8: a no-break space and an ideographic space.\<close>

lemma Fields_TrimSpace_examples:
  "Fields (TrimSpace (''type'' @ [CHR 0xC2, CHR 0xA0] @ ''end'')) = [''type'', ''end'']"
  "Fields (TrimSpace ([CHR 0xE3, CHR 0x80, CHR 0x80] @ ''status'' @ [CHR 0xE3, CHR 0x80, CHR 0x80]))
     = [''status'']"
  "TrimSpace (''5'' @ [CHR 0xE2, CHR 0x80, CHR 0x8A]) = ''5''"
  "TrimSpace (''5'' @ [CHR 0xE2, CHR 0x80, CHR 0x8B]) = ''5'' @ [CHR 0xE2, CHR 0x80, CHR 0x8B]"
  by (simp_all add: string_eval)

lemma asciiSpace_ascii: "asciiSpace c \<Longrightarrow> (of_char c :: nat) < 128"
  by (auto simp: asciiSpace_def)

lemma space2_bytes: "space2 c d \<Longrightarrow> 128 \<le> (of_char c :: nat) \<and> 128 \<le> (of_char d :: nat)"
  by (auto simp: space2_def)

lemma space3_bytes:
  "space3 c d e \<Longrightarrow>
     128 \<le> (of_char c :: nat) \<and> 128 \<le> (of_char d :: nat) \<and> 128 \<le> (of_char e :: nat)"
  by (auto simp: space3_def)

lemma spaceWidth_le: "spaceWidth s \<le> length s"
  by (cases s rule: spaceWidth.cases) simp_all

lemma spaceWidth_ascii:
  "(of_char c :: nat) < 128 \<Longrightarrow> spaceWidth (c # cs) = (if asciiSpace c then 1 else 0)"
  using space2_bytes [of c] space3_bytes [of c]
  by (cases "c # cs" rule: spaceWidth.cases) auto

lemma spaceWidth_append: "spaceWidth s \<noteq> 0 \<Longrightarrow> spaceWidth (s @ x) = spaceWidth s"
proof (cases s rule: spaceWidth.cases)
  case (1 c d e r)
  then show ?thesis by simp
next
  case (2 c d)
  assume "spaceWidth s \<noteq> 0"
  with 2 show ?thesis by (cases x) (auto split: if_splits)
next
  case (3 c)
  assume "spaceWidth s \<noteq> 0"
  with 3 show ?thesis by (cases "c # x" rule: spaceWidth.cases) (auto split: if_splits)
next
  case 4
  assume "spaceWidth s \<noteq> 0"
  with 4 show ?thesis by simp
qed

lemma spaceWidth_take: "spaceWidth (take (spaceWidth s) s) = spaceWidth s"
  by (cases s rule: spaceWidth.cases) simp_all

lemma spaceWidth_bytes:
  "c \<in> set (take (spaceWidth s) s) \<Longrightarrow> asciiSpace c \<or> 128 \<le> (of_char c :: nat)"
  using space2_bytes space3_bytes
  by (cases s rule: spaceWidth.cases) (auto split: if_splits)

lemma concat_runes: "concat (runes s) = s"
  by (induction s rule: runes.induct) (simp_all add: Let_def)


subsection \<open>The units of a string\<close>

lemma runes_unfold:
  "s \<noteq> [] \<Longrightarrow>
     runes s = take (max 1 (spaceWidth s)) s # runes (drop (max 1 (spaceWidth s)) s)"
  by (cases s) (auto simp: Let_def take_Cons' drop_Cons' max_def)

lemma first_width_le: "s \<noteq> [] \<Longrightarrow> max 1 (spaceWidth s) \<le> length s"
  using spaceWidth_le [of s] by (cases s) auto

lemma runes_tail:
  assumes "runes (concat (t # Q)) = t # Q"
  shows "runes (concat Q) = Q"
proof -
  let ?s = "concat (t # Q)"
  let ?m = "max 1 (spaceWidth ?s)"
  have ne: "?s \<noteq> []"
  proof
    assume "?s = []"
    then have "runes ?s = []" by (simp only: runes.simps)
    with assms show False by simp
  qed
  from runes_unfold [OF ne] assms have t: "t = take ?m ?s" and Q: "Q = runes (drop ?m ?s)"
    by simp_all
  have "?m \<le> length ?s"
    using ne by (rule first_width_le)
  with t have "length t = ?m"
    by (metis length_take min.absorb2)
  then have "drop ?m ?s = concat Q"
    by simp
  with Q show ?thesis by simp
qed

lemma runes_suffix: "runes (concat (A @ P)) = A @ P \<Longrightarrow> runes (concat P) = P"
proof (induction A)
  case Nil
  then show ?case by simp
next
  case (Cons a A)
  from Cons.prems have "runes (concat (A @ P)) = A @ P"
    using runes_tail [of a "A @ P"] by simp
  then show ?case by (rule Cons.IH)
qed

lemma runes_prefix: "runes (concat (P @ Q)) = P @ Q \<Longrightarrow> runes (concat P) = P"
proof (induction P)
  case Nil
  show ?case by simp
next
  case (Cons t P)
  let ?s = "concat ((t # P) @ Q)"
  let ?s' = "concat (t # P)"
  let ?m = "max 1 (spaceWidth ?s)"
  have tl: "runes (concat (P @ Q)) = P @ Q"
    using Cons.prems runes_tail [of t "P @ Q"] by simp
  then have ih: "runes (concat P) = P"
    by (rule Cons.IH)
  have ne: "?s \<noteq> []"
  proof
    assume "?s = []"
    then have "runes ?s = []" by (simp only: runes.simps)
    with Cons.prems show False by simp
  qed
  from runes_unfold [OF ne] Cons.prems have t: "t = take ?m ?s"
    by simp
  have "?m \<le> length ?s"
    using ne by (rule first_width_le)
  with t have lt: "length t = ?m"
    by (metis length_take min.absorb2)
  then have tne: "t \<noteq> []"
    by auto
  then have ne': "?s' \<noteq> []"
    by simp
  have s: "?s = ?s' @ concat Q"
    by simp
  have "spaceWidth ?s' = spaceWidth ?s"
  proof (cases "spaceWidth ?s' = 0")
    case False
    then have "spaceWidth (?s' @ concat Q) = spaceWidth ?s'"
      by (rule spaceWidth_append)
    then show ?thesis
      unfolding s by simp
  next
    case True
    have "spaceWidth ?s = 0"
    proof (rule ccontr)
      assume n: "spaceWidth ?s \<noteq> 0"
      then have "?m = spaceWidth ?s"
        by (simp add: max_def)
      with t have "t = take (spaceWidth ?s) ?s"
        by simp
      then have "spaceWidth t = spaceWidth ?s"
        using spaceWidth_take [of ?s] by simp
      with n have "spaceWidth (t @ concat P) = spaceWidth t"
        by (intro spaceWidth_append) simp
      with True n \<open>spaceWidth t = spaceWidth ?s\<close> show False
        by simp
    qed
    with True show ?thesis by simp
  qed
  then have m: "max 1 (spaceWidth ?s') = length t"
    using lt by simp
  have "runes ?s' = take (length t) ?s' # runes (drop (length t) ?s')"
    using runes_unfold [OF ne'] by (simp only: m)
  then show ?case
    by (simp add: ih)
qed

lemma runes_sublist: "runes (concat (A @ P @ Z)) = A @ P @ Z \<Longrightarrow> runes (concat P) = P"
  using runes_prefix [of "A @ P" Z] runes_suffix [of A P] by simp

lemma runes_runes: "runes (concat (runes s)) = runes s"
  by (simp add: concat_runes)


subsection \<open>Splitting and trimming lists\<close>

lemma Split_nonempty: "Split l sep \<noteq> []"
  by (cases l) simp_all

lemma Split_snoc:
  "Split (l @ [c]) sep =
     (if c = sep then Split l sep @ [[]]
      else butlast (Split l sep) @ [last (Split l sep) @ [c]])"
proof (induction l)
  case Nil
  show ?case by simp
next
  case (Cons x xs)
  then show ?case
    by (cases "Split xs sep") (auto simp: Split_nonempty)
qed

lemma Split_rev: "Split (rev l) sep = rev (map rev (Split l sep))"
proof (induction l)
  case Nil
  show ?case by simp
next
  case (Cons x xs)
  then show ?case
    by (cases "Split xs sep")
       (auto simp: Split_snoc Split_nonempty butlast_rev last_rev rev_map)
qed

lemma Split_ltrim:
  assumes "\<not> P sep"
  shows "Split (dropWhile P l) sep = dropWhile P (hd (Split l sep)) # tl (Split l sep)"
proof (induction l)
  case Nil
  show ?case by simp
next
  case (Cons x xs)
  then show ?case
    using assms by (cases "Split xs sep") (auto simp: Split_nonempty)
qed

lemma trim_commute:
  "dropWhile P (rev (dropWhile P (rev z))) = rev (dropWhile P (rev (dropWhile P z)))"
proof (cases "dropWhile P z")
  case Nil
  then have "\<forall>x \<in> set z. P x" by (simp only: dropWhile_eq_Nil_conv)
  then have b: "dropWhile P (rev z) = []" by (simp only: dropWhile_eq_Nil_conv set_rev)
  show ?thesis unfolding Nil b by simp
next
  case (Cons x xs)
  then have nx: "\<not> P x"
    using hd_dropWhile [of P z] by auto
  have z: "z = takeWhile P z @ x # xs"
    using Cons takeWhile_dropWhile_id [of P z] by metis
  have r: "rev (dropWhile P (rev (x # xs))) = x # rev (dropWhile P (rev xs))"
    using nx by (simp add: dropWhile_append3)
  have "rev z = rev (x # xs) @ rev (takeWhile P z)"
    by (subst z) simp
  then have "dropWhile P (rev z) = dropWhile P (rev (x # xs)) @ rev (takeWhile P z)"
    using nx by (simp add: dropWhile_append3)
  then have "rev (dropWhile P (rev z)) = takeWhile P z @ rev (dropWhile P (rev (x # xs)))"
    by simp
  moreover have "dropWhile P (takeWhile P z @ ys) = dropWhile P ys" for ys
    by (rule dropWhile_append2) (auto dest: set_takeWhileD)
  ultimately have "dropWhile P (rev (dropWhile P (rev z))) =
      dropWhile P (rev (dropWhile P (rev (x # xs))))"
    by (simp only:)
  also have "\<dots> = rev (dropWhile P (rev (x # xs)))"
    using nx by (simp only: r) simp
  finally show ?thesis by (simp only: Cons)
qed

lemma TrimFunc_ltrim: "TrimFunc P (dropWhile P p) = TrimFunc P p"
  by (simp add: TrimFunc_def)

lemma TrimFunc_rev_ltrim: "TrimFunc P (rev (dropWhile P x)) = TrimFunc P (rev x)"
proof -
  have "TrimFunc P (rev (dropWhile P x)) =
      rev (dropWhile P (rev (dropWhile P (rev (dropWhile P (rev (rev x)))))))"
    by (simp add: TrimFunc_def)
  also have "\<dots> = rev (dropWhile P (rev (rev (dropWhile P (rev (dropWhile P (rev x)))))))"
    by (simp only: trim_commute)
  also have "\<dots> = TrimFunc P (rev x)"
    by (simp add: TrimFunc_def)
  finally show ?thesis .
qed

lemma map_hd_absorb:
  "xs \<noteq> [] \<Longrightarrow> f (g (hd xs)) = f (hd xs) \<Longrightarrow> map f (g (hd xs) # tl xs) = map f xs"
  by (cases xs) simp_all

lemma Split_TrimFunc:
  assumes "\<not> P sep"
  shows "map (TrimFunc P) (Split (TrimFunc P l) sep) = map (TrimFunc P) (Split l sep)"
proof -
  let ?lt = "dropWhile P"
  let ?S1 = "Split (?lt l) sep"
  let ?R = "Split (rev (?lt l)) sep"
  have R: "?R = rev (map rev ?S1)"
    by (rule Split_rev)
  have "Split (TrimFunc P l) sep = rev (map rev (Split (?lt (rev (?lt l))) sep))"
    by (simp add: TrimFunc_def Split_rev)
  also have "Split (?lt (rev (?lt l))) sep = ?lt (hd ?R) # tl ?R"
    using assms by (rule Split_ltrim)
  finally have "map (TrimFunc P) (Split (TrimFunc P l) sep) =
      rev (map (\<lambda>x. TrimFunc P (rev x)) (?lt (hd ?R) # tl ?R))"
    by (simp add: rev_map)
  also have "map (\<lambda>x. TrimFunc P (rev x)) (?lt (hd ?R) # tl ?R) = map (\<lambda>x. TrimFunc P (rev x)) ?R"
    by (rule map_hd_absorb) (simp_all add: Split_nonempty TrimFunc_rev_ltrim)
  also have "rev (map (\<lambda>x. TrimFunc P (rev x)) ?R) = map (TrimFunc P) ?S1"
    by (simp add: R rev_map)
  also have "?S1 = ?lt (hd (Split l sep)) # tl (Split l sep)"
    using assms by (rule Split_ltrim)
  also have "map (TrimFunc P) (?lt (hd (Split l sep)) # tl (Split l sep)) = map (TrimFunc P) (Split l sep)"
    by (rule map_hd_absorb) (simp_all add: Split_nonempty TrimFunc_ltrim)
  finally show ?thesis .
qed

subsection \<open>Pieces and trimmed lists are sublists\<close>

lemma Split_hd_prefix: "\<exists>Z. hd (Split l sep) @ Z = l"
proof (induction l)
  case Nil
  show ?case by simp
next
  case (Cons x xs)
  then obtain Z where Z: "hd (Split xs sep) @ Z = xs" ..
  show ?case
  proof (cases "x = sep")
    case True
    then show ?thesis by simp
  next
    case False
    have "(x # hd (Split xs sep)) @ Z = x # xs"
      using Z by simp
    with False show ?thesis
      by (intro exI [of _ Z]) simp
  qed
qed

lemma Split_piece_sublist: "q \<in> set (Split l sep) \<Longrightarrow> \<exists>A Z. A @ q @ Z = l"
proof (induction l arbitrary: q)
  case Nil
  then have "q = []" by simp
  then have "[] @ q @ [] = []" by simp
  then show ?case by (intro exI)
next
  case (Cons x xs)
  have step: "\<exists>A Z. A @ q @ Z = x # xs" if "q \<in> set (Split xs sep)"
  proof -
    from Cons.IH [OF that] obtain A Z where "A @ q @ Z = xs" by blast
    then have "(x # A) @ q @ Z = x # xs" by simp
    then show ?thesis by (intro exI)
  qed
  show ?case
  proof (cases "x = sep")
    case True
    with Cons.prems have "q = [] \<or> q \<in> set (Split xs sep)" by auto
    then show ?thesis
    proof
      assume "q = []"
      then have "[] @ q @ (x # xs) = x # xs" by simp
      then show ?thesis by (intro exI)
    next
      assume "q \<in> set (Split xs sep)"
      then show ?thesis by (rule step)
    qed
  next
    case False
    with Cons.prems have "q = x # hd (Split xs sep) \<or> q \<in> set (tl (Split xs sep))" by auto
    then show ?thesis
    proof
      assume q: "q = x # hd (Split xs sep)"
      obtain Z where "hd (Split xs sep) @ Z = xs" using Split_hd_prefix [of xs sep] by blast
      with q have "[] @ q @ Z = x # xs" by simp
      then show ?thesis by (intro exI)
    next
      assume "q \<in> set (tl (Split xs sep))"
      then have "q \<in> set (Split xs sep)"
        by (rule list.set_sel(2) [rotated]) (simp add: Split_nonempty)
      then show ?thesis by (rule step)
    qed
  qed
qed

lemma TrimFunc_sublist: "\<exists>A Z. A @ TrimFunc P l @ Z = l"
proof -
  define d where "d = dropWhile P l"
  have 1: "takeWhile P l @ d = l"
    by (simp add: d_def)
  have "rev (takeWhile P (rev d) @ dropWhile P (rev d)) = rev (rev d)"
    by (simp only: takeWhile_dropWhile_id)
  then have 2: "rev (dropWhile P (rev d)) @ rev (takeWhile P (rev d)) = d"
    by (simp only: rev_rev_ident rev_append)
  have 3: "TrimFunc P l = rev (dropWhile P (rev d))"
    by (simp add: TrimFunc_def d_def)
  have "takeWhile P l @ TrimFunc P l @ rev (takeWhile P (rev d)) = l"
    by (simp only: 3 2 1)
  then show ?thesis by blast
qed


subsection \<open>Splitting a string and splitting its units\<close>

lemma Split_prefix_nosep:
  "sep \<notin> set t \<Longrightarrow> Split (t @ r) sep = (t @ hd (Split r sep)) # tl (Split r sep)"
  by (induction t) (auto simp: Split_nonempty)

lemma token_not_sep:
  assumes "(of_char sep :: nat) < 128" "\<not> asciiSpace sep" "spaceWidth s \<noteq> 0"
  shows "sep \<notin> set (take (spaceWidth s) s)" "take (spaceWidth s) s \<noteq> [sep]"
proof -
  show n: "sep \<notin> set (take (spaceWidth s) s)"
    using assms spaceWidth_bytes [of sep s] by auto
  show "take (spaceWidth s) s \<noteq> [sep]"
  proof
    assume "take (spaceWidth s) s = [sep]"
    then have "sep \<in> set (take (spaceWidth s) s)" by simp
    with n show False by simp
  qed
qed

lemma Split_runes:
  assumes "(of_char sep :: nat) < 128" "\<not> asciiSpace sep"
  shows "Split s sep = map concat (Split (runes s) [sep])"
proof (induction s rule: runes.induct)
  case 1
  show ?case by simp
next
  case (2 c cs)
  let ?w = "spaceWidth (c # cs)"
  show ?case
  proof (cases "?w = 0")
    case True
    with 2 have ih: "Split cs sep = map concat (Split (runes cs) [sep])"
      by simp
    have r: "runes (c # cs) = [c] # runes cs"
      using True by (simp add: Let_def)
    show ?thesis
      unfolding r by (simp add: ih hd_map map_tl Split_nonempty)
  next
    case False
    define t where "t = c # take (?w - 1) cs"
    define r where "r = drop (?w - 1) cs"
    from False 2 have ih: "Split r sep = map concat (Split (runes r) [sep])"
      by (simp add: r_def)
    have t: "t = take ?w (c # cs)"
      using False by (simp add: t_def take_Cons')
    have rn: "runes (c # cs) = t # runes r"
      using False by (simp add: Let_def t_def r_def)
    have cs: "c # cs = t @ r"
      by (simp add: t_def r_def)
    have ns: "sep \<notin> set t" "t \<noteq> [sep]"
      unfolding t by (rule token_not_sep [OF assms False])+
    have A: "Split (c # cs) sep = (t @ hd (Split r sep)) # tl (Split r sep)"
      by (subst cs) (rule Split_prefix_nosep [OF ns(1)])
    have Z: "Split (runes (c # cs)) [sep] =
        (t # hd (Split (runes r) [sep])) # tl (Split (runes r) [sep])"
      using ns(2) by (simp only: rn Split.simps if_False)
    show ?thesis
      unfolding A Z
      by (simp add: ih hd_map map_tl Split_nonempty del: Split.simps runes.simps)
  qed
qed

lemma TrimSpace_concat: "runes (concat Q) = Q \<Longrightarrow> TrimSpace (concat Q) = concat (TrimFunc isSpaceRune Q)"
  by (simp add: TrimSpace_def)

lemma runes_piece:
  assumes "runes (concat T) = T" "Q \<in> set (Split T sep)"
  shows "runes (concat Q) = Q"
proof -
  from Split_piece_sublist [OF assms(2)] obtain A Z where "A @ Q @ Z = T" by blast
  with assms(1) have "runes (concat (A @ Q @ Z)) = A @ Q @ Z" by simp
  then show ?thesis by (rule runes_sublist)
qed

lemma runes_TrimFunc:
  assumes "runes (concat T) = T"
  shows "runes (concat (TrimFunc P T)) = TrimFunc P T"
proof -
  from TrimFunc_sublist [of P T] obtain A Z where "A @ TrimFunc P T @ Z = T" by blast
  with assms have "runes (concat (A @ TrimFunc P T @ Z)) = A @ TrimFunc P T @ Z" by simp
  then show ?thesis by (rule runes_sublist)
qed

lemma map_TrimSpace_pieces:
  assumes "runes (concat T) = T"
  shows "map TrimSpace (map concat (Split T sep)) =
         map concat (map (TrimFunc isSpaceRune) (Split T sep))"
  using runes_piece [OF assms] by (simp add: TrimSpace_concat)

lemma Split_TrimSpace:
  assumes "(of_char sep :: nat) < 128" "\<not> asciiSpace sep"
  shows "map TrimSpace (Split (TrimSpace l) sep) = map TrimSpace (Split l sep)"
proof -
  let ?T = "runes l"
  let ?U = "TrimFunc isSpaceRune ?T"
  have ns: "\<not> isSpaceRune [sep]"
    using assms by (simp add: isSpaceRune_def)
  have vT: "runes (concat ?T) = ?T"
    by (simp add: concat_runes)
  then have vU: "runes (concat ?U) = ?U"
    by (rule runes_TrimFunc)
  have "Split (TrimSpace l) sep = map concat (Split (runes (concat ?U)) [sep])"
    unfolding TrimSpace_def by (rule Split_runes [OF assms])
  then have "map TrimSpace (Split (TrimSpace l) sep) =
      map TrimSpace (map concat (Split ?U [sep]))"
    by (simp only: vU)
  also have "\<dots> = map concat (map (TrimFunc isSpaceRune) (Split ?U [sep]))"
    using vU by (rule map_TrimSpace_pieces)
  also have "\<dots> = map concat (map (TrimFunc isSpaceRune) (Split ?T [sep]))"
    by (simp only: Split_TrimFunc [of isSpaceRune "[sep]", OF ns])
  also have "\<dots> = map TrimSpace (map concat (Split ?T [sep]))"
    using vT by (rule map_TrimSpace_pieces [symmetric])
  also have "\<dots> = map TrimSpace (Split l sep)"
    by (simp only: Split_runes [OF assms, symmetric])
  finally show ?thesis .
qed


subsection \<open>ASCII strings\<close>

lemma isSpaceRune_single: "isSpaceRune [c] = asciiSpace c"
  by (simp add: isSpaceRune_def)

lemma runes_ascii: "\<forall>c \<in> set s. (of_char c :: nat) < 128 \<Longrightarrow> runes s = map (\<lambda>c. [c]) s"
  by (induction s) (simp_all add: spaceWidth_ascii Let_def)

lemma concat_singles: "concat (map (\<lambda>c. [c]) s) = s"
  by (induction s) simp_all

lemma TrimFunc_id:
  assumes "l \<noteq> []" "\<not> P (hd l)" "\<not> P (last l)"
  shows "TrimFunc P l = l"
proof -
  have "dropWhile P l = l"
    using assms(1,2) by (cases l) simp_all
  moreover have "dropWhile P (rev l) = rev l"
    using assms(1,3) by (cases "rev l") (simp_all add: last_rev [symmetric] del: last_rev)
  ultimately show ?thesis by (simp add: TrimFunc_def)
qed

lemma TrimSpace_id:
  assumes "s \<noteq> []" "\<forall>c \<in> set s. (of_char c :: nat) < 128"
    "\<not> asciiSpace (hd s)" "\<not> asciiSpace (last s)"
  shows "TrimSpace s = s"
proof -
  let ?l = "map (\<lambda>c. [c]) s"
  have "TrimFunc isSpaceRune ?l = ?l"
    using assms(1,3,4)
    by (intro TrimFunc_id) (simp_all add: hd_map last_map isSpaceRune_single)
  then show ?thesis
    by (simp add: TrimSpace_def runes_ascii [OF assms(2)] concat_singles)
qed

lemma fields_from_word:
  "\<forall>c \<in> set w. \<not> asciiSpace c \<Longrightarrow>
     fields_from cur (map (\<lambda>c. [c]) w @ rest) = fields_from (cur @ w) rest"
  by (induction w arbitrary: cur) (simp_all add: isSpaceRune_single)

lemma isDigit_plain: "isDigit c \<Longrightarrow> (of_char c :: nat) < 128 \<and> \<not> asciiSpace c"
  by (auto simp: isDigit_def asciiSpace_def)

lemma Fields_time_arg:
  assumes "a \<noteq> []" "\<forall>c \<in> set a. (of_char c :: nat) < 128 \<and> \<not> asciiSpace c"
  shows "Fields (''time '' @ a) = [''time'', a]"
proof -
  have "\<forall>c \<in> set (''time '' @ a). (of_char c :: nat) < 128"
    using assms(2) by auto
  then have "runes (''time '' @ a) = map (\<lambda>c. [c]) (''time '' @ a)"
    by (rule runes_ascii)
  then have "Fields (''time '' @ a) =
      fields_from [] ([''t'', ''i'', ''m'', ''e'', '' ''] @ map (\<lambda>c. [c]) a @ [])"
    by (simp add: Fields_def del: fields_from.simps runes.simps)
  also have "\<dots> = ''time'' # fields_from [] (map (\<lambda>c. [c]) a @ [])"
    by (simp add: isSpaceRune_single asciiSpace_def)
  also have "fields_from [] (map (\<lambda>c. [c]) a @ []) = fields_from ([] @ a) []"
    using assms(2) by (intro fields_from_word) simp
  finally show ?thesis using assms(1) by simp
qed

subsection \<open>A trimmed piece that is not empty has a first word\<close>

lemma runes_nonempty: "r \<in> set (runes s) \<Longrightarrow> r \<noteq> []"
  by (induction s rule: runes.induct) (auto simp: Let_def split: if_splits)

lemma fields_from_Nil_iff:
  "\<forall>r \<in> set rs. r \<noteq> [] \<Longrightarrow>
     fields_from cur rs = [] \<longleftrightarrow> cur = [] \<and> (\<forall>r \<in> set rs. isSpaceRune r)"
  by (induction rs arbitrary: cur) auto

lemma TrimFunc_Nil_iff: "TrimFunc P l = [] \<longleftrightarrow> (\<forall>x \<in> set l. P x)"
proof -
  have "dropWhile P (rev (dropWhile P l)) = [] \<longleftrightarrow> dropWhile P l = []"
  proof (cases "dropWhile P l")
    case Nil
    show ?thesis unfolding Nil by simp
  next
    case (Cons x xs)
    then have "\<not> P x"
      using hd_dropWhile [of P l] by auto
    with Cons show ?thesis by auto
  qed
  then show ?thesis
    by (simp add: TrimFunc_def dropWhile_eq_Nil_conv)
qed

lemma TrimFunc_idem: "TrimFunc P (TrimFunc P l) = TrimFunc P l"
  using TrimFunc_rev_ltrim [of P "rev (dropWhile P l)"]
  by (simp add: TrimFunc_def [of P l] TrimFunc_ltrim)

lemma TrimSpace_idem: "TrimSpace (TrimSpace s) = TrimSpace s"
proof -
  have "runes (concat (TrimFunc isSpaceRune (runes s))) = TrimFunc isSpaceRune (runes s)"
    by (rule runes_TrimFunc) (simp add: concat_runes)
  then show ?thesis
    by (simp add: TrimSpace_def TrimFunc_idem)
qed

lemma Fields_TrimSpace_nonempty: "TrimSpace cmd \<noteq> [] \<Longrightarrow> Fields (TrimSpace cmd) \<noteq> []"
proof -
  let ?U = "TrimFunc isSpaceRune (runes cmd)"
  assume ne: "TrimSpace cmd \<noteq> []"
  have v: "runes (concat ?U) = ?U"
    by (rule runes_TrimFunc) (simp add: concat_runes)
  from ne have "?U \<noteq> []"
    by (auto simp: TrimSpace_def)
  then have "TrimFunc isSpaceRune ?U \<noteq> []"
    by (simp add: TrimFunc_idem)
  then have n: "\<not> (\<forall>r \<in> set ?U. isSpaceRune r)"
    by (simp only: TrimFunc_Nil_iff) simp
  have "\<forall>r \<in> set ?U. r \<noteq> []"
    using runes_nonempty [of _ "concat ?U"] by (simp only: v) blast
  with n have "fields_from [] ?U \<noteq> []"
    by (simp add: fields_from_Nil_iff)
  then show ?thesis
    by (simp add: Fields_def TrimSpace_def v)
qed

section \<open>Properties: the read path\<close>

lemma getQuestion_state: "snd (getQuestion now s) = s"
  by (simp add: getQuestion_def Let_def)

lemma getQuestion_p0_state: "snd (getQuestion_p0 now s) = s"
  by (simp add: getQuestion_p0_def Let_def)

lemma GETs_eq: "GETs ts s = (map (\<lambda>now. fst (getQuestion now s)) ts, s)"
proof (induction ts)
  case Nil
  show ?case by simp
next
  case (Cons now ts)
  then show ?case by (simp add: split_def Let_def getQuestion_state)
qed

lemma GETs_p0_eq: "GETs_p0 ts s = (map (\<lambda>now. fst (getQuestion_p0 now s)) ts, s)"
proof (induction ts)
  case Nil
  show ?case by simp
next
  case (Cons now ts)
  then show ?case by (simp add: split_def Let_def getQuestion_p0_state)
qed

lemma getQuestion_countdown:
  assumes "\<not> pause s" "\<not> CountUp (question s)"
  shows "fst (getQuestion now s) =
     JSON 200 (QuestionJSON
       (let r = TimeLeft (question s) - Since now (StartTime (question s)) in
        if sint r < 0 then (question s)\<lparr>TimeLeft := 0, Type := ''end''\<rparr>
        else (question s)\<lparr>TimeLeft := r\<rparr>))"
  using assms by (simp add: getQuestion_def Let_def)

lemma getQuestion_p0_countdown:
  assumes "\<not> Pause_p0 s"
  shows "fst (getQuestion_p0 now s) =
     JSON_p0 200 (QuestionJSON_p0
       (let r = TimeLeft_p0 (question_p0 s) - Since now (StartTime_p0 (question_p0 s)) in
        if sint r < 0 then (question_p0 s)\<lparr>TimeLeft_p0 := 0, Type_p0 := ''end''\<rparr>
        else (question_p0 s)\<lparr>TimeLeft_p0 := r\<rparr>))"
  using assms by (simp add: getQuestion_p0_def Let_def)

lemma getQuestion_expired:
  assumes "\<not> pause s" "\<not> CountUp (question s)" "0 \<le> sint (TimeLeft (question s))"
    "sint (TimeLeft (question s)) < 9223372036854775807"
    "StartTime (question s) + sint (TimeLeft (question s)) < now"
  shows "fst (getQuestion now s) =
     JSON 200 (QuestionJSON ((question s)\<lparr>TimeLeft := 0, Type := ''end''\<rparr>))"
  using assms by (simp add: getQuestion_countdown Let_def remaining_negative)

lemma getQuestion_p0_expired:
  assumes "\<not> Pause_p0 s" "0 \<le> sint (TimeLeft_p0 (question_p0 s))"
    "sint (TimeLeft_p0 (question_p0 s)) < 9223372036854775807"
    "StartTime_p0 (question_p0 s) + sint (TimeLeft_p0 (question_p0 s)) < now"
  shows "fst (getQuestion_p0 now s) =
     JSON_p0 200 (QuestionJSON_p0 ((question_p0 s)\<lparr>TimeLeft_p0 := 0, Type_p0 := ''end''\<rparr>))"
  using assms by (simp add: getQuestion_p0_countdown Let_def remaining_negative)

text \<open>
  Claim C1, as the specification states it: for every valid countdown state (not counting up,
  not paused), the read at \<open>now = startedAt + durationBudget\<close> reports \<open>time_left = 0\<close> and
  \<open>type = end\<close>. The code tests \<^verbatim>\<open>q.TimeLeft < 0\<close>: at that instant the remaining time is
  exactly zero, the test fails, and the stored type is reported. Here on the record the
  process starts with, 30 seconds after its start.
\<close>

theorem deadline_read_counterexample:
  "\<not> pause (init 0) \<and> \<not> CountUp (question (init 0)) \<and>
   StartTime (question (init 0)) + sint (TimeLeft (question (init 0))) = 30000000000 \<and>
   fst (getQuestion 30000000000 (init 0)) =
     JSON 200 (QuestionJSON \<lparr>Question = ''Default question'', TimeLeft = 0, Type = ''pomoc'',
                              StartTime = 0, CountUp = False\<rparr>)"
  by (simp add: getQuestion_def init_def initializeQuestion_def Second_def Since_def)

text \<open>
  Claim C1, amended: for every valid countdown state, in both variants, the read at
  \<open>now = startedAt + durationBudget\<close> reports \<open>time_left = 0\<close> and the type as it is stored;
  every later read reports \<open>time_left = 0\<close> and \<open>type = end\<close> (for a budget below the largest
  \<^verbatim>\<open>Duration\<close>, at which \<^verbatim>\<open>time.Since\<close> saturates).
\<close>

theorem deadline_read:
  "(\<not> pause s \<and> \<not> CountUp (question s) \<and> 0 \<le> sint (TimeLeft (question s)) \<longrightarrow>
      fst (getQuestion (StartTime (question s) + sint (TimeLeft (question s))) s) =
        JSON 200 (QuestionJSON ((question s)\<lparr>TimeLeft := 0\<rparr>)) \<and>
      (StartTime (question s) + sint (TimeLeft (question s)) < now \<and>
       sint (TimeLeft (question s)) < 9223372036854775807 \<longrightarrow>
         fst (getQuestion now s) =
           JSON 200 (QuestionJSON ((question s)\<lparr>TimeLeft := 0, Type := ''end''\<rparr>)))) \<and>
   (\<not> Pause_p0 s0 \<and> 0 \<le> sint (TimeLeft_p0 (question_p0 s0)) \<longrightarrow>
      fst (getQuestion_p0 (StartTime_p0 (question_p0 s0) + sint (TimeLeft_p0 (question_p0 s0))) s0) =
        JSON_p0 200 (QuestionJSON_p0 ((question_p0 s0)\<lparr>TimeLeft_p0 := 0\<rparr>)) \<and>
      (StartTime_p0 (question_p0 s0) + sint (TimeLeft_p0 (question_p0 s0)) < now \<and>
       sint (TimeLeft_p0 (question_p0 s0)) < 9223372036854775807 \<longrightarrow>
         fst (getQuestion_p0 now s0) =
           JSON_p0 200 (QuestionJSON_p0 ((question_p0 s0)\<lparr>TimeLeft_p0 := 0, Type_p0 := ''end''\<rparr>))))"
proof -
  have "fst (getQuestion (StartTime (question s) + sint (TimeLeft (question s))) s) =
          JSON 200 (QuestionJSON ((question s)\<lparr>TimeLeft := 0\<rparr>))"
    if "\<not> pause s" "\<not> CountUp (question s)"
    using that by (simp add: getQuestion_countdown Since_at_deadline)
  moreover have
    "fst (getQuestion_p0 (StartTime_p0 (question_p0 s0) + sint (TimeLeft_p0 (question_p0 s0))) s0) =
       JSON_p0 200 (QuestionJSON_p0 ((question_p0 s0)\<lparr>TimeLeft_p0 := 0\<rparr>))"
    if "\<not> Pause_p0 s0"
    using that by (simp add: getQuestion_p0_countdown Since_at_deadline)
  ultimately show ?thesis
    using getQuestion_expired [of s now] getQuestion_p0_expired [of s0 now] by blast
qed

theorem deadline_read_witness:
  "fst (getQuestion 30000000000 (init 0)) =
     JSON 200 (QuestionJSON \<lparr>Question = ''Default question'', TimeLeft = 0, Type = ''pomoc'',
                              StartTime = 0, CountUp = False\<rparr>) \<and>
   fst (getQuestion 30000000001 (init 0)) =
     JSON 200 (QuestionJSON \<lparr>Question = ''Default question'', TimeLeft = 0, Type = ''end'',
                              StartTime = 0, CountUp = False\<rparr>) \<and>
   fst (getQuestion_p0 30000000000 (init_p0 0)) =
     JSON_p0 200 (QuestionJSON_p0 \<lparr>Question_p0 = ''Default question'', TimeLeft_p0 = 0,
                                    Type_p0 = ''pomoc'', StartTime_p0 = 0\<rparr>) \<and>
   fst (getQuestion_p0 30000000001 (init_p0 0)) =
     JSON_p0 200 (QuestionJSON_p0 \<lparr>Question_p0 = ''Default question'', TimeLeft_p0 = 0,
                                    Type_p0 = ''end'', StartTime_p0 = 0\<rparr>)"
  using deadline_read [of "init 0" 30000000001 "init_p0 0"]
  by (simp add: init_def init_p0_def initializeQuestion_def Second_def)

text \<open>
  Claim C4: \<^verbatim>\<open>GET /get-question\<close> never changes the stored record. Any number of reads, at
  any instants, leave the whole state as it was; in countdown mode each read after the
  budget has run out answers \<open>time_left = 0\<close> and \<open>type = end\<close> all the same. Both variants.
\<close>

theorem getQuestion_never_mutates:
  "snd (GETs ts s) = s \<and> length (fst (GETs ts s)) = length ts \<and>
   (\<not> pause s \<and> \<not> CountUp (question s) \<and> 0 \<le> sint (TimeLeft (question s)) \<and>
    sint (TimeLeft (question s)) < 9223372036854775807 \<longrightarrow>
      (\<forall>i < length ts. StartTime (question s) + sint (TimeLeft (question s)) < ts ! i \<longrightarrow>
         fst (GETs ts s) ! i =
           JSON 200 (QuestionJSON ((question s)\<lparr>TimeLeft := 0, Type := ''end''\<rparr>)))) \<and>
   snd (GETs_p0 ts s0) = s0 \<and> length (fst (GETs_p0 ts s0)) = length ts \<and>
   (\<not> Pause_p0 s0 \<and> 0 \<le> sint (TimeLeft_p0 (question_p0 s0)) \<and>
    sint (TimeLeft_p0 (question_p0 s0)) < 9223372036854775807 \<longrightarrow>
      (\<forall>i < length ts.
         StartTime_p0 (question_p0 s0) + sint (TimeLeft_p0 (question_p0 s0)) < ts ! i \<longrightarrow>
         fst (GETs_p0 ts s0) ! i =
           JSON_p0 200 (QuestionJSON_p0 ((question_p0 s0)\<lparr>TimeLeft_p0 := 0, Type_p0 := ''end''\<rparr>))))"
  by (simp add: GETs_eq GETs_p0_eq getQuestion_expired getQuestion_p0_expired)

theorem getQuestion_never_mutates_witness:
  "snd (GETs [29000000000, 31000000000, 45000000000] (init 0)) = init 0 \<and>
   fst (GETs [29000000000, 31000000000, 45000000000] (init 0)) ! 2 =
     JSON 200 (QuestionJSON \<lparr>Question = ''Default question'', TimeLeft = 0, Type = ''end'',
                              StartTime = 0, CountUp = False\<rparr>) \<and>
   Type (question (snd (GETs [29000000000, 31000000000, 45000000000] (init 0)))) = ''pomoc'' \<and>
   snd (GETs_p0 [29000000000, 31000000000, 45000000000] (init_p0 0)) = init_p0 0 \<and>
   fst (GETs_p0 [29000000000, 31000000000, 45000000000] (init_p0 0)) ! 2 =
     JSON_p0 200 (QuestionJSON_p0 \<lparr>Question_p0 = ''Default question'', TimeLeft_p0 = 0,
                                    Type_p0 = ''end'', StartTime_p0 = 0\<rparr>)"
proof -
  have a: "\<not> pause (init 0)" "\<not> CountUp (question (init 0))"
    "sint (TimeLeft (question (init 0))) = 30000000000" "StartTime (question (init 0)) = 0"
    "question (init 0) = \<lparr>Question = ''Default question'', TimeLeft = 30000000000,
       Type = ''pomoc'', StartTime = 0, CountUp = False\<rparr>"
    by (simp_all add: init_def initializeQuestion_def Second_def)
  have b: "\<not> Pause_p0 (init_p0 0)"
    "sint (TimeLeft_p0 (question_p0 (init_p0 0))) = 30000000000"
    "StartTime_p0 (question_p0 (init_p0 0)) = 0"
    "question_p0 (init_p0 0) = \<lparr>Question_p0 = ''Default question'', TimeLeft_p0 = 30000000000,
       Type_p0 = ''pomoc'', StartTime_p0 = 0\<rparr>"
    by (simp_all add: init_p0_def Second_def)
  show ?thesis
    using getQuestion_never_mutates
      [of "[29000000000, 31000000000, 45000000000]" "init 0" "init_p0 0"]
    by (simp add: a b)
qed

text \<open>
  Claim C5: while the pause flag is set, the read does no time arithmetic: it answers the
  stored record as it is, whatever the clock reads, and a second read after the first
  answers the same. Both variants.
\<close>

theorem paused_read_ignores_clock:
  "(pause s \<longrightarrow>
      fst (getQuestion now1 s) = JSON 200 (QuestionJSON (question s)) \<and>
      fst (getQuestion now2 s) = fst (getQuestion now1 s) \<and>
      fst (getQuestion now2 (snd (getQuestion now1 s))) = fst (getQuestion now1 s)) \<and>
   (Pause_p0 s0 \<longrightarrow>
      fst (getQuestion_p0 now1 s0) = JSON_p0 200 (QuestionJSON_p0 (question_p0 s0)) \<and>
      fst (getQuestion_p0 now2 s0) = fst (getQuestion_p0 now1 s0) \<and>
      fst (getQuestion_p0 now2 (snd (getQuestion_p0 now1 s0))) = fst (getQuestion_p0 now1 s0))"
  by (simp add: getQuestion_def getQuestion_p0_def Let_def)

theorem paused_read_ignores_clock_witness:
  "fst (getQuestion 1 ((init 0)\<lparr>pause := True\<rparr>)) =
     JSON 200 (QuestionJSON \<lparr>Question = ''Default question'', TimeLeft = 30000000000,
                              Type = ''pomoc'', StartTime = 0, CountUp = False\<rparr>) \<and>
   fst (getQuestion 99000000000 ((init 0)\<lparr>pause := True\<rparr>)) =
     fst (getQuestion 1 ((init 0)\<lparr>pause := True\<rparr>)) \<and>
   fst (getQuestion_p0 99000000000 ((init_p0 0)\<lparr>Pause_p0 := True\<rparr>)) =
     fst (getQuestion_p0 1 ((init_p0 0)\<lparr>Pause_p0 := True\<rparr>))"
  using paused_read_ignores_clock
    [of "(init 0)\<lparr>pause := True\<rparr>" 1 99000000000 "(init_p0 0)\<lparr>Pause_p0 := True\<rparr>"]
  by (simp add: init_def initializeQuestion_def Second_def)

section \<open>Properties: the write path of POST /set-question\<close>

lemma validateQuestion_StartTime:
  "validateQuestion (q\<lparr>StartTime := t\<rparr>) = validateQuestion q"
  by (simp add: validateQuestion_def)

lemma validateQuestion_None:
  "validateQuestion q = None \<longleftrightarrow>
     0 \<le> sint (TimeLeft q) \<and> Type q \<in> {''pomoc'', ''rozstrel'', ''waiting'', ''end''}"
  by (auto simp: validateQuestion_def index_bool_validTypes)

text \<open>
  Claim C3: a body that decodes to a record with a negative \<open>time_left\<close>, or with a type
  outside the four, is answered 400 with an error message, and the whole state (the stored
  record with it) is what it was: validation comes before any assignment. So is a body that
  does not decode at all.
\<close>

theorem setQuestion_rejects_invalid:
  "(sint (TimeLeft q) < 0 \<or> Type q \<notin> {''pomoc'', ''rozstrel'', ''waiting'', ''end''} \<longrightarrow>
      setQuestion now (Inr q) s =
        (JSON 400 (ErrorJSON (if sint (TimeLeft q) < 0 then ''time_left must be non-negative''
           else ''invalid type. Must be one of: pomoc, rozstrel, waiting, end'')), s)) \<and>
   setQuestion now (Inl err) s = (JSON 400 (ErrorJSON err), s)"
  by (auto simp: setQuestion_def validateQuestion_def index_bool_validTypes)

theorem setQuestion_rejects_invalid_witness:
  "setQuestion 7 (Inr \<lparr>Question = ''Q'', TimeLeft = - 1, Type = ''pomoc'', StartTime = 3,
                       CountUp = False\<rparr>) (init 0)
     = (JSON 400 (ErrorJSON ''time_left must be non-negative''), init 0) \<and>
   setQuestion 7 (Inr \<lparr>Question = ''Q'', TimeLeft = 5, Type = ''quiz'', StartTime = 3,
                       CountUp = False\<rparr>) (init 0)
     = (JSON 400 (ErrorJSON ''invalid type. Must be one of: pomoc, rozstrel, waiting, end''),
        init 0)"
  using
    setQuestion_rejects_invalid [of "\<lparr>Question = ''Q'', TimeLeft = - 1, Type = ''pomoc'',
      StartTime = 3, CountUp = False\<rparr>" 7 "init 0"]
    setQuestion_rejects_invalid [of "\<lparr>Question = ''Q'', TimeLeft = 5, Type = ''quiz'',
      StartTime = 3, CountUp = False\<rparr>" 7 "init 0"]
  by simp

text \<open>
  Claim C10: an accepted \<^verbatim>\<open>POST /set-question\<close> stores the server's clock reading as the
  start time; the \<open>start_time\<close> of the body has no effect on the answer or on the state.
\<close>

theorem setQuestion_overwrites_start_time:
  assumes "validateQuestion q = None"
  shows "StartTime (question (snd (setQuestion now (Inr q) s))) = now \<and>
         setQuestion now (Inr (q\<lparr>StartTime := t\<rparr>)) s = setQuestion now (Inr q) s"
  using assms by (simp add: setQuestion_def validateQuestion_StartTime Let_def)

theorem setQuestion_overwrites_start_time_witness:
  "StartTime (question (snd (setQuestion 7
      (Inr \<lparr>Question = ''Q'', TimeLeft = 5, Type = ''waiting'', StartTime = 1000, CountUp = False\<rparr>)
      (init 0)))) = 7 \<and>
   setQuestion 7
      (Inr \<lparr>Question = ''Q'', TimeLeft = 5, Type = ''waiting'', StartTime = - 40, CountUp = False\<rparr>)
      (init 0) =
   setQuestion 7
      (Inr \<lparr>Question = ''Q'', TimeLeft = 5, Type = ''waiting'', StartTime = 1000, CountUp = False\<rparr>)
      (init 0)"
proof -
  have "validateQuestion \<lparr>Question = ''Q'', TimeLeft = 5, Type = ''waiting'', StartTime = 1000,
          CountUp = False\<rparr> = None"
    by (simp add: validateQuestion_None)
  from setQuestion_overwrites_start_time [OF this, of 7 "init 0" "- 40"]
  show ?thesis by simp
qed

section \<open>Properties: the commands of the shell\<close>

lemma startCLI_cmd_switch:
  "Fields (TrimSpace cmd) = a # as \<Longrightarrow> startCLI_cmd now cmd s = startCLI_switch now (a # as) s"
  by (auto simp: startCLI_cmd_def Let_def Fields_def)

lemma main_cmd_p0_switch:
  "Fields (TrimSpace cmd) = a # as \<Longrightarrow> main_cmd_p0 now cmd s = main_switch_p0 now (a # as) s"
  by (auto simp: main_cmd_p0_def Let_def Fields_def)

lemma case_status_countdown:
  assumes "\<not> CountUp (question s)"
  shows "case_status now s = s\<lparr>out := out s @
      [Print Info ''Current question status:'' [],
       Print Info ''Question: %s'' [S (Question (question s))],
       Print Info ''Time left: %d seconds''
         [Secs (let r = TimeLeft (question s) - Since now (StartTime (question s)) in
                if sint r < 0 then 0 else r)],
       Print Info ''Type: %s'' [S (Type (question s))],
       Print Info ''Logging: %v'' [B (loggingEnabled s)]]\<rparr>"
  using assms by (simp add: case_status_def print_def Let_def)

lemma case_status_p0_eq:
  "case_status_p0 now s = s\<lparr>out_p0 := out_p0 s @
      [Print Info ''Current question status:'' [],
       Print Info ''Question: %s'' [S (Question_p0 (question_p0 s))],
       Print Info ''Time left: %d seconds''
         [Secs (let r = TimeLeft_p0 (question_p0 s) - Since now (StartTime_p0 (question_p0 s)) in
                if sint r < 0 then 0 else r)],
       Print Info ''Type: %s'' [S (Type_p0 (question_p0 s))],
       Print Info ''Logging: %v'' [B (loggingEnabled_p0 s)]]\<rparr>"
  by (simp add: case_status_p0_def print_p0_def Let_def)

lemma switch_status: "startCLI_switch now (''status'' # rest) s = case_status now s"
  by (simp add: startCLI_switch_def)

lemma switch_status_p0: "main_switch_p0 now (''status'' # rest) s = case_status_p0 now s"
  by (simp add: main_switch_p0_def)

text \<open>
  Claim C6: in countdown mode (not counting up; for the read, not paused) and at every
  clock reading, the time left that \<^verbatim>\<open>GET /get-question\<close> answers and the time left that
  the \<^verbatim>\<open>status\<close> command prints are the same duration \<open>d\<close>: the stored budget minus the
  time since the start, replaced by zero when that is negative; \<open>d\<close> is never negative. This
  holds whatever is stored, wrap-around of the subtraction included. Both variants.
\<close>

theorem derived_time_left_never_negative:
  "(\<not> CountUp (question s) \<longrightarrow>
      (let r = TimeLeft (question s) - Since now (StartTime (question s));
           d = (if sint r < 0 then 0 else r) in
       0 \<le> sint d \<and>
       (\<not> pause s \<longrightarrow>
          fst (getQuestion now s) =
            JSON 200 (QuestionJSON ((question s)
              \<lparr>TimeLeft := d, Type := (if sint r < 0 then ''end'' else Type (question s))\<rparr>))) \<and>
       startCLI_switch now (''status'' # rest) s =
         s\<lparr>out := out s @
           [Print Info ''Current question status:'' [],
            Print Info ''Question: %s'' [S (Question (question s))],
            Print Info ''Time left: %d seconds'' [Secs d],
            Print Info ''Type: %s'' [S (Type (question s))],
            Print Info ''Logging: %v'' [B (loggingEnabled s)]]\<rparr>)) \<and>
   (let r = TimeLeft_p0 (question_p0 s0) - Since now (StartTime_p0 (question_p0 s0));
        d = (if sint r < 0 then 0 else r) in
    0 \<le> sint d \<and>
    (\<not> Pause_p0 s0 \<longrightarrow>
       fst (getQuestion_p0 now s0) =
         JSON_p0 200 (QuestionJSON_p0 ((question_p0 s0)
           \<lparr>TimeLeft_p0 := d,
             Type_p0 := (if sint r < 0 then ''end'' else Type_p0 (question_p0 s0))\<rparr>))) \<and>
    main_switch_p0 now (''status'' # rest) s0 =
      s0\<lparr>out_p0 := out_p0 s0 @
        [Print Info ''Current question status:'' [],
         Print Info ''Question: %s'' [S (Question_p0 (question_p0 s0))],
         Print Info ''Time left: %d seconds'' [Secs d],
         Print Info ''Type: %s'' [S (Type_p0 (question_p0 s0))],
         Print Info ''Logging: %v'' [B (loggingEnabled_p0 s0)]]\<rparr>)"
  by (simp add: Let_def getQuestion_countdown getQuestion_p0_countdown switch_status
      switch_status_p0 case_status_countdown case_status_p0_eq)

theorem derived_time_left_never_negative_witness:
  "fst (getQuestion 45000000000 (init 0)) =
     JSON 200 (QuestionJSON \<lparr>Question = ''Default question'', TimeLeft = 0, Type = ''end'',
                              StartTime = 0, CountUp = False\<rparr>) \<and>
   out (startCLI_switch 45000000000 [''status''] (init 0)) ! 3 =
     Print Info ''Time left: %d seconds'' [Secs 0] \<and>
   fst (getQuestion_p0 45000000000 (init_p0 0)) =
     JSON_p0 200 (QuestionJSON_p0 \<lparr>Question_p0 = ''Default question'', TimeLeft_p0 = 0,
                                    Type_p0 = ''end'', StartTime_p0 = 0\<rparr>) \<and>
   out_p0 (main_switch_p0 45000000000 [''status''] (init_p0 0)) ! 3 =
     Print Info ''Time left: %d seconds'' [Secs 0]"
proof -
  have a: "\<not> pause (init 0)" "loggingEnabled (init 0) = False"
    "out (init 0) = [Print Info ''Server started. Type 'help' for available commands.'' []]"
    "question (init 0) = \<lparr>Question = ''Default question'', TimeLeft = 30000000000,
       Type = ''pomoc'', StartTime = 0, CountUp = False\<rparr>"
    by (simp_all add: init_def initializeQuestion_def Second_def)
  have b: "\<not> Pause_p0 (init_p0 0)" "loggingEnabled_p0 (init_p0 0) = False"
    "out_p0 (init_p0 0) = [Print Info ''Server started. Type 'help' for available commands'' []]"
    "question_p0 (init_p0 0) = \<lparr>Question_p0 = ''Default question'', TimeLeft_p0 = 30000000000,
       Type_p0 = ''pomoc'', StartTime_p0 = 0\<rparr>"
    by (simp_all add: init_p0_def Second_def)
  have c: "Since 45000000000 0 = 45000000000"
    by (simp add: Since_def)
  show ?thesis
    using derived_time_left_never_negative [of "init 0" 45000000000 "[]" "init_p0 0"]
    by (simp add: a b c Let_def)
qed

lemma switch_type: "startCLI_switch now (''type'' # rest) s = case_type (''type'' # rest) s"
  by (simp add: startCLI_switch_def)

lemma switch_type_p0: "main_switch_p0 now (''type'' # rest) s = case_type_p0 (''type'' # rest) s"
  by (simp add: main_switch_p0_def)

lemma case_type_end:
  "case_type [''type'', ''end''] s =
     s\<lparr>question := (question s)\<lparr>Type := ''end'', Question := ''END''\<rparr>,
       out := out s @ [Print Success ''Type set to: %s'' [S ''end'']]\<rparr>"
  by (simp add: case_type_def index_bool_validTypes print_def Let_def)

lemma case_type_p0_end:
  "case_type_p0 [''type'', ''end''] s =
     s\<lparr>question_p0 := (question_p0 s)\<lparr>Type_p0 := ''end''\<rparr>,
       out_p0 := out_p0 s @ [Print Success ''Type set to: %s'' [S ''end'']]\<rparr>"
  by (simp add: case_type_p0_def index_bool_validTypes print_p0_def Let_def)

lemma Fields_type_end: "Fields (TrimSpace ''type end'') = [''type'', ''end'']"
  by (simp add: string_eval)

text \<open>
  Claim C2, as the specification states it: every accepted write that sets the type to
  \<open>end\<close> stores the text \<open>END\<close>. The \<^verbatim>\<open>type\<close> command of part_000 stores the type and
  nothing else: after \<^verbatim>\<open>type end\<close> the text is the one it was.
\<close>

theorem type_end_text_counterexample:
  "Type_p0 (question_p0 (main_cmd_p0 5 ''type end'' (init_p0 0))) = ''end'' \<and>
   Question_p0 (question_p0 (main_cmd_p0 5 ''type end'' (init_p0 0))) = ''Default question''"
  by (simp add: main_cmd_p0_switch [OF Fields_type_end] switch_type_p0 case_type_p0_end
      init_p0_def)

text \<open>
  Claim C2, amended: in main.go every accepted write that sets the type to \<open>end\<close>, the
  command \<^verbatim>\<open>type end\<close> and a valid \<^verbatim>\<open>POST /set-question\<close> of type \<open>end\<close>, stores the text
  \<open>END\<close> whatever the text was (the command changes nothing else of the record, the POST
  stores the body with the server's start time). In part_000, \<^verbatim>\<open>type end\<close> stores the type
  and leaves the text as it was.
\<close>

theorem type_end_forces_text:
  "(Fields (TrimSpace cmd) = [''type'', ''end''] \<longrightarrow>
      question (startCLI_cmd now cmd s) = (question s)\<lparr>Type := ''end'', Question := ''END''\<rparr> \<and>
      question_p0 (main_cmd_p0 now cmd s0) = (question_p0 s0)\<lparr>Type_p0 := ''end''\<rparr>) \<and>
   (validateQuestion q = None \<and> Type q = ''end'' \<longrightarrow>
      question (snd (setQuestion now (Inr q) s)) = q\<lparr>StartTime := now, Question := ''END''\<rparr> \<and>
      fst (setQuestion now (Inr q) s) =
        JSON 200 (QuestionJSON (q\<lparr>StartTime := now, Question := ''END''\<rparr>)))"
proof -
  have "question (startCLI_cmd now cmd s) = (question s)\<lparr>Type := ''end'', Question := ''END''\<rparr>"
    "question_p0 (main_cmd_p0 now cmd s0) = (question_p0 s0)\<lparr>Type_p0 := ''end''\<rparr>"
    if "Fields (TrimSpace cmd) = [''type'', ''end'']"
    using that
    by (simp_all add: startCLI_cmd_switch main_cmd_p0_switch switch_type switch_type_p0
        case_type_end case_type_p0_end)
  moreover have
    "question (snd (setQuestion now (Inr q) s)) = q\<lparr>StartTime := now, Question := ''END''\<rparr>"
    "fst (setQuestion now (Inr q) s) =
       JSON 200 (QuestionJSON (q\<lparr>StartTime := now, Question := ''END''\<rparr>))"
    if "validateQuestion q = None" "Type q = ''end''"
    using that by (simp_all add: setQuestion_def Let_def)
  ultimately show ?thesis by blast
qed

theorem type_end_forces_text_witness:
  "question (startCLI_cmd 5 ''type end'' (init 0)) =
     \<lparr>Question = ''END'', TimeLeft = 30000000000, Type = ''end'', StartTime = 0,
      CountUp = False\<rparr> \<and>
   question_p0 (main_cmd_p0 5 ''type end'' (init_p0 0)) =
     \<lparr>Question_p0 = ''Default question'', TimeLeft_p0 = 30000000000, Type_p0 = ''end'',
      StartTime_p0 = 0\<rparr> \<and>
   question (snd (setQuestion 5
       (Inr \<lparr>Question = ''Last one'', TimeLeft = 9, Type = ''end'', StartTime = 1, CountUp = True\<rparr>)
       (init 0))) =
     \<lparr>Question = ''END'', TimeLeft = 9, Type = ''end'', StartTime = 5, CountUp = True\<rparr>"
proof -
  have v: "validateQuestion \<lparr>Question = ''Last one'', TimeLeft = 9, Type = ''end'', StartTime = 1,
             CountUp = True\<rparr> = None"
    by (simp add: validateQuestion_None)
  show ?thesis
    using type_end_forces_text [of "''type end''" 5 "init 0" "init_p0 0"
        "\<lparr>Question = ''Last one'', TimeLeft = 9, Type = ''end'', StartTime = 1, CountUp = True\<rparr>"]
    by (simp add: Fields_type_end v init_def init_p0_def initializeQuestion_def Second_def)
qed

section \<open>Properties: strings and numerals\<close>

lemma isDigit_digit: "d < 10 \<Longrightarrow> isDigit (char_of (48 + d :: nat))"
  by (simp add: isDigit_def)

lemma Itoa_digits: "list_all isDigit (Itoa n)"
  by (induction n rule: Itoa.induct) (subst Itoa.simps, simp add: isDigit_digit)

lemma Itoa_nonempty: "Itoa n \<noteq> []"
  by (subst Itoa.simps) simp

lemma decimal_append: "decimal k (xs @ ys) = decimal (decimal k xs) ys"
  by (induction xs arbitrary: k) simp_all

lemma decimal_Itoa: "decimal 0 (Itoa n) = n"
proof (induction n rule: Itoa.induct)
  case (1 n)
  show ?case
  proof (cases "n < 10")
    case True
    then show ?thesis by (subst Itoa.simps) simp
  next
    case False
    with 1 have "decimal 0 (Itoa (n div 10)) = n div 10" by simp
    with False show ?thesis
      by (subst Itoa.simps) (simp add: decimal_append)
  qed
qed

lemma Atoi_Itoa:
  assumes "n \<le> 9223372036854775807"
  shows "Atoi (Itoa n) = Some (word_of_nat n)"
proof -
  obtain c cs where s: "Itoa n = c # cs"
    using Itoa_nonempty [of n] by (cases "Itoa n") auto
  have "isDigit c" using Itoa_digits [of n] s by simp
  then have "c \<noteq> CHR ''-''" "c \<noteq> CHR ''+''"
    by (auto simp: isDigit_def)
  with s assms Itoa_digits [of n] decimal_Itoa [of n] show ?thesis
    by (simp add: Atoi_def Let_def)
qed

lemma Atoi_Some_not_keyword:
  "Atoi a = Some n \<Longrightarrow> a \<noteq> ''last'' \<and> a \<noteq> ''pause'' \<and> a \<noteq> ''countUp''"
  by (auto simp: Atoi_def isDigit_def)

lemma sint_of_nat_in_range:
  "n \<le> 9223372036854775807 \<Longrightarrow> sint (word_of_nat n :: GoInt) = int n"
  using sint_of_int_in_range [of "int n"] by simp

lemma sint_seconds:
  fixes n :: GoInt
  assumes "0 \<le> sint n" "sint n \<le> 9223372036"
  shows "sint (n * Second) = sint n * 1000000000"
proof -
  have "sint (Second) = 1000000000" by (simp add: Second_def)
  then have "sint (n * Second) = signed_take_bit 63 (sint n * 1000000000)"
    by (simp add: sint_word_mult)
  also have "\<dots> = sint n * 1000000000"
    using assms by (intro signed_take_bit_int_eq_self) simp_all
  finally show ?thesis .
qed

lemma Itoa_plain: "\<forall>c \<in> set (Itoa n). (of_char c :: nat) < 128 \<and> \<not> asciiSpace c"
  using Itoa_digits [of n] by (auto simp: list_all_iff dest: isDigit_plain)

lemma TrimSpace_time_Itoa: "TrimSpace (''time '' @ Itoa n) = ''time '' @ Itoa n"
proof -
  have "last (''time '' @ Itoa n) \<in> set (Itoa n)"
    using Itoa_nonempty [of n] by simp
  then have l: "\<not> asciiSpace (last (''time '' @ Itoa n))"
    using Itoa_plain [of n] by blast
  have b: "\<forall>c \<in> set (''time '' @ Itoa n). (of_char c :: nat) < 128"
    using Itoa_plain [of n] by auto
  show ?thesis
    by (rule TrimSpace_id [OF _ b _ l]) (simp_all add: asciiSpace_def)
qed

lemma Fields_time_Itoa: "Fields (TrimSpace (''time '' @ Itoa n)) = [''time'', Itoa n]"
  by (simp only: TrimSpace_time_Itoa) (rule Fields_time_arg [OF Itoa_nonempty Itoa_plain])

section \<open>Properties: the time commands\<close>

lemma switch_time: "startCLI_switch now (''time'' # rest) s = case_time now (''time'' # rest) s"
  by (simp add: startCLI_switch_def)

lemma switch_time_p0: "main_switch_p0 now (''time'' # rest) s = case_time_p0 now (''time'' # rest) s"
  by (simp add: main_switch_p0_def)

lemma case_time_numeric:
  assumes "Atoi a = Some n" "0 \<le> sint n"
  shows "case_time now [''time'', a] s =
     s\<lparr>lastTime := n,
       question := (question s)\<lparr>TimeLeft := n * Second, StartTime := now, CountUp := False\<rparr>,
       out := out s @ [Print Success ''Time left set to: %d seconds'' [D n]]\<rparr>"
  using assms Atoi_Some_not_keyword [OF assms(1)]
  by (simp add: case_time_def print_def)

lemma case_time_p0_numeric:
  assumes "Atoi a = Some n" "0 \<le> sint n"
  shows "case_time_p0 now [''time'', a] s =
     s\<lparr>lastTime_p0 := n,
       question_p0 := (question_p0 s)\<lparr>TimeLeft_p0 := n * Second, StartTime_p0 := now\<rparr>,
       out_p0 := out_p0 s @ [Print Success ''Time left set to: %d seconds'' [D n]]\<rparr>"
  using assms Atoi_Some_not_keyword [OF assms(1)]
  by (simp add: case_time_p0_def print_p0_def)

lemma case_time_refused:
  assumes "a \<notin> {''last'', ''pause'', ''countUp''}"
    "Atoi a = None \<or> (\<exists>n. Atoi a = Some n \<and> sint n < 0)"
  shows "case_time now [''time'', a] s =
           s\<lparr>out := out s @ [Print ErrorC ''Time must be a non-negative integer'' []]\<rparr>"
    and "case_time_p0 now [''time'', a] s0 =
           s0\<lparr>out_p0 := out_p0 s0 @ [Print ErrorC ''Time must be a positive number'' []]\<rparr>"
  using assms by (auto simp: case_time_def case_time_p0_def print_def print_p0_def)

lemma case_time_last:
  "case_time now [''time'', ''last''] s =
     s\<lparr>question := (question s)\<lparr>TimeLeft := lastTime s * Second, StartTime := now,
                                 CountUp := False\<rparr>,
       out := out s @ [Print Success ''Time left set to: %d seconds'' [D (lastTime s)]]\<rparr>"
  by (simp add: case_time_def print_def)

text \<open>
  Claim C7, as the specification states it: for every non-negative integer \<open>N\<close>, the command
  \<^verbatim>\<open>time <N>\<close> sets the stored budget to \<open>N\<close> seconds. The budget is a 64-bit count of
  nanoseconds and the product \<^verbatim>\<open>time.Duration(timeLeft) * time.Second\<close> wraps around: after
  \<^verbatim>\<open>time 9223372037\<close> the stored budget is negative.
\<close>

theorem time_N_counterexample:
  "Atoi ''9223372037'' = Some 9223372037 \<and>
   lastTime (startCLI_cmd 5 ''time 9223372037'' (init 0)) = 9223372037 \<and>
   sint (TimeLeft (question (startCLI_cmd 5 ''time 9223372037'' (init 0)))) =
     - 9223372036709551616"
proof -
  have f: "Fields (TrimSpace ''time 9223372037'') = [''time'', ''9223372037'']"
    by (simp add: string_eval)
  have a: "Atoi ''9223372037'' = Some 9223372037"
    by (simp add: Atoi_def isDigit_def)
  have "sint (9223372037 :: GoInt) = 9223372037"
    by simp
  then show ?thesis
    by (simp add: startCLI_cmd_switch [OF f] switch_time case_time_numeric [OF a] a Second_def)
qed

text \<open>
  Claim C7, amended: for every integer \<open>N\<close> from 0 to 9223372036 (the whole seconds that a
  \<^verbatim>\<open>Duration\<close> holds), the command \<^verbatim>\<open>time <N>\<close>, with \<open>N\<close> as its decimal numeral or as any
  string that \<^verbatim>\<open>strconv.Atoi\<close> reads as \<open>N\<close>, sets the stored budget to \<open>N\<close> seconds, resets
  the start time to now, records \<open>N\<close> as the last manual duration and prints the success
  line; main.go also sets \<open>countUp\<close> to false (part_000 has no such field). An argument
  that is none of the key words and that \<^verbatim>\<open>Atoi\<close> refuses (not an integer, or one outside the
  64-bit \<^verbatim>\<open>int\<close>) or reads as negative gets an error line and changes nothing else. The
  words of a command are what \<^verbatim>\<open>strings.Fields\<close> finds in the trimmed command: white space
  of any kind around and between them, a no-break space after the numeral for one, is not
  part of them.
\<close>

theorem time_N_sets_budget:
  "(N \<le> 9223372036 \<longrightarrow>
      Fields (TrimSpace (''time '' @ Itoa N)) = [''time'', Itoa N] \<and>
      Atoi (Itoa N) = Some (word_of_nat N) \<and> sint (word_of_nat N :: GoInt) = int N) \<and>
   (Fields (TrimSpace cmd) = [''time'', a] \<and> Atoi a = Some n \<and>
    0 \<le> sint n \<and> sint n \<le> 9223372036 \<longrightarrow>
      sint (n * Second) = sint n * 1000000000 \<and>
      startCLI_cmd now cmd s =
        s\<lparr>lastTime := n,
          question := (question s)\<lparr>TimeLeft := n * Second, StartTime := now, CountUp := False\<rparr>,
          out := out s @ [Print Success ''Time left set to: %d seconds'' [D n]]\<rparr> \<and>
      main_cmd_p0 now cmd s0 =
        s0\<lparr>lastTime_p0 := n,
           question_p0 := (question_p0 s0)\<lparr>TimeLeft_p0 := n * Second, StartTime_p0 := now\<rparr>,
           out_p0 := out_p0 s0 @ [Print Success ''Time left set to: %d seconds'' [D n]]\<rparr>) \<and>
   (Fields (TrimSpace cmd) = [''time'', a] \<and> a \<notin> {''last'', ''pause'', ''countUp''} \<and>
    (Atoi a = None \<or> (\<exists>n. Atoi a = Some n \<and> sint n < 0)) \<longrightarrow>
      startCLI_cmd now cmd s =
        s\<lparr>out := out s @ [Print ErrorC ''Time must be a non-negative integer'' []]\<rparr> \<and>
      main_cmd_p0 now cmd s0 =
        s0\<lparr>out_p0 := out_p0 s0 @ [Print ErrorC ''Time must be a positive number'' []]\<rparr>)"
proof (intro conjI impI)
  assume "N \<le> 9223372036"
  then have "N \<le> 9223372036854775807" by simp
  then show "Atoi (Itoa N) = Some (word_of_nat N)" "sint (word_of_nat N :: GoInt) = int N"
    by (simp_all add: Atoi_Itoa sint_of_nat_in_range)
  show "Fields (TrimSpace (''time '' @ Itoa N)) = [''time'', Itoa N]"
    by (rule Fields_time_Itoa)
next
  assume h: "Fields (TrimSpace cmd) = [''time'', a] \<and> Atoi a = Some n \<and>
    0 \<le> sint n \<and> sint n \<le> 9223372036"
  then show "sint (n * Second) = sint n * 1000000000"
    by (simp add: sint_seconds)
  from h show "startCLI_cmd now cmd s =
        s\<lparr>lastTime := n,
          question := (question s)\<lparr>TimeLeft := n * Second, StartTime := now, CountUp := False\<rparr>,
          out := out s @ [Print Success ''Time left set to: %d seconds'' [D n]]\<rparr>"
    by (simp add: startCLI_cmd_switch switch_time case_time_numeric)
  from h show "main_cmd_p0 now cmd s0 =
        s0\<lparr>lastTime_p0 := n,
           question_p0 := (question_p0 s0)\<lparr>TimeLeft_p0 := n * Second, StartTime_p0 := now\<rparr>,
           out_p0 := out_p0 s0 @ [Print Success ''Time left set to: %d seconds'' [D n]]\<rparr>"
    by (simp add: main_cmd_p0_switch switch_time_p0 case_time_p0_numeric)
next
  assume h: "Fields (TrimSpace cmd) = [''time'', a] \<and> a \<notin> {''last'', ''pause'', ''countUp''} \<and>
    (Atoi a = None \<or> (\<exists>n. Atoi a = Some n \<and> sint n < 0))"
  then have f: "Fields (TrimSpace cmd) = [''time'', a]"
    and k: "a \<notin> {''last'', ''pause'', ''countUp''}"
    and r: "Atoi a = None \<or> (\<exists>n. Atoi a = Some n \<and> sint n < 0)"
    by blast+
  show "startCLI_cmd now cmd s =
        s\<lparr>out := out s @ [Print ErrorC ''Time must be a non-negative integer'' []]\<rparr>"
    by (simp only: startCLI_cmd_switch [OF f] switch_time case_time_refused(1) [OF k r])
  show "main_cmd_p0 now cmd s0 =
        s0\<lparr>out_p0 := out_p0 s0 @ [Print ErrorC ''Time must be a positive number'' []]\<rparr>"
    by (simp only: main_cmd_p0_switch [OF f] switch_time_p0 case_time_refused(2) [OF k r])
qed

theorem time_N_sets_budget_witness:
  "Atoi (Itoa 45) = Some 45 \<and>
   question (startCLI_cmd 7 ''time 45'' (init 0)) =
     \<lparr>Question = ''Default question'', TimeLeft = 45000000000, Type = ''pomoc'', StartTime = 7,
      CountUp = False\<rparr> \<and>
   lastTime (startCLI_cmd 7 ''time 45'' (init 0)) = 45 \<and>
   question_p0 (main_cmd_p0 7 ''time 45'' (init_p0 0)) =
     \<lparr>Question_p0 = ''Default question'', TimeLeft_p0 = 45000000000, Type_p0 = ''pomoc'',
      StartTime_p0 = 7\<rparr> \<and>
   startCLI_cmd 7 ''  time 1.5 '' (init 0) =
     (init 0)\<lparr>out := out (init 0) @ [Print ErrorC ''Time must be a non-negative integer'' []]\<rparr> \<and>
   startCLI_cmd 7 ''time -5'' (init 0) =
     (init 0)\<lparr>out := out (init 0) @ [Print ErrorC ''Time must be a non-negative integer'' []]\<rparr> \<and>
   question (startCLI_cmd 7 (''time 5'' @ [CHR 0xC2, CHR 0xA0]) (init 0)) =
     \<lparr>Question = ''Default question'', TimeLeft = 5000000000, Type = ''pomoc'', StartTime = 7,
      CountUp = False\<rparr>"
proof -
  have f: "Fields (TrimSpace ''time 45'') = [''time'', ''45'']"
    "Fields (TrimSpace ''  time 1.5 '') = [''time'', ''1.5'']"
    "Fields (TrimSpace ''time -5'') = [''time'', ''-5'']"
    by (simp_all add: string_eval)
  have u: "Fields (TrimSpace (''time 5'' @ [CHR 0xC2, CHR 0xA0])) = [''time'', ''5'']"
    by (simp add: string_eval)
  have a: "Atoi ''45'' = Some 45" "Atoi ''1.5'' = None" "Atoi ''-5'' = Some (- 5)"
    "Atoi ''5'' = Some 5"
    by (simp_all add: Atoi_def isDigit_def)
  have s: "sint (45 :: GoInt) = 45" "sint (- 5 :: GoInt) = - 5" "sint (5 :: GoInt) = 5"
    by simp_all
  have q: "question (init 0) = \<lparr>Question = ''Default question'', TimeLeft = 30000000000,
      Type = ''pomoc'', StartTime = 0, CountUp = False\<rparr>"
    "question_p0 (init_p0 0) = \<lparr>Question_p0 = ''Default question'', TimeLeft_p0 = 30000000000,
      Type_p0 = ''pomoc'', StartTime_p0 = 0\<rparr>"
    by (simp_all add: init_def init_p0_def initializeQuestion_def Second_def)
  show ?thesis
    using time_N_sets_budget [of 45 "''time 45''" "''45''" 45 7 "init 0" "init_p0 0"]
      time_N_sets_budget [of 45 "''  time 1.5 ''" "''1.5''" 45 7 "init 0" "init_p0 0"]
      time_N_sets_budget [of 45 "''time -5''" "''-5''" 45 7 "init 0" "init_p0 0"]
      time_N_sets_budget [of 45 "''time 5'' @ [CHR 0xC2, CHR 0xA0]" "''5''" 5 7 "init 0" "init_p0 0"]
      u
    by (simp add: f a s q Second_def)
qed

section \<open>Properties: the last manual duration\<close>

lemma lastTime_print: "lastTime (print p fmt as s) = lastTime s"
  by (simp add: print_def)

lemma lastTime_case_time_arity:
  "length args \<noteq> 2 \<Longrightarrow> lastTime (case_time now args s) = lastTime s"
  by (simp add: case_time_def print_def)

lemma lastTime_case_time:
  "\<not> (\<exists>m. Atoi a = Some m \<and> 0 \<le> sint m) \<Longrightarrow>
     lastTime (case_time now [c, a] s) = lastTime s"
  by (auto simp: case_time_def print_def Let_def split: option.splits)

lemma lastTime_others:
  "lastTime (case_logging args s) = lastTime s"
  "lastTime (case_exit s) = lastTime s"
  "lastTime (case_question now args s) = lastTime s"
  "lastTime (case_type args s) = lastTime s"
  "lastTime (case_status now s) = lastTime s"
  "lastTime (printHelp s) = lastTime s"
  by (simp_all add: case_logging_def case_exit_def case_question_def case_type_def
      case_status_def printHelp_def print_def Let_def)

lemma lastTime_switch:
  assumes "\<not> (\<exists>a m. args = [''time'', a] \<and> Atoi a = Some m \<and> 0 \<le> sint m)"
  shows "lastTime (startCLI_switch now args s) = lastTime s"
proof (cases args)
  case Nil
  then show ?thesis by (simp add: startCLI_switch_def)
next
  case (Cons command rest)
  show ?thesis
  proof (cases "command = ''time''")
    case False
    with Cons show ?thesis
      by (simp add: startCLI_switch_def lastTime_others lastTime_print)
  next
    case True
    show ?thesis
    proof (cases "length args = 2")
      case False
      with Cons True show ?thesis
        by (simp add: startCLI_switch_def lastTime_case_time_arity)
    next
      case two: True
      with Cons obtain a where a: "rest = [a]"
        by (cases rest) auto
      with assms Cons True have "\<not> (\<exists>m. Atoi a = Some m \<and> 0 \<le> sint m)"
        by simp
      then have "lastTime (case_time now [command, a] s) = lastTime s"
        by (rule lastTime_case_time)
      with Cons True a show ?thesis
        by (simp add: startCLI_switch_def)
    qed
  qed
qed

lemma lastTime_setQuestion: "lastTime (snd (setQuestion now bound s)) = lastTime s"
  by (simp add: setQuestion_def Let_def split: sum.splits option.splits)

lemma lastTime_step:
  assumes "\<not> numeric_time e"
  shows "lastTime (step s e) = lastTime s"
proof (cases e)
  case (Cmd now cmd)
  with assms have "\<not> (\<exists>a m. Fields (TrimSpace cmd) = [''time'', a] \<and> Atoi a = Some m \<and> 0 \<le> sint m)"
    by (auto simp: numeric_time_def)
  then have "lastTime (startCLI_switch now (Fields (TrimSpace cmd)) s) = lastTime s"
    by (rule lastTime_switch)
  with Cmd show ?thesis
    by (simp add: startCLI_cmd_def Let_def)
next
  case (GET now)
  then show ?thesis by (simp add: getQuestion_state)
next
  case (POST now bound)
  then show ?thesis by (simp add: lastTime_setQuestion)
qed

lemma lastTime_run:
  "\<forall>e \<in> set evs. \<not> numeric_time e \<Longrightarrow> lastTime (run s evs) = lastTime s"
  unfolding run_def
  by (induction evs arbitrary: s) (simp_all add: lastTime_step)

lemma run_append: "run s (xs @ ys) = run (run s xs) ys"
  by (simp add: run_def)

lemma run_Cons: "run s (e # evs) = run (step s e) evs"
  by (simp add: run_def)

lemma run_Nil: "run s [] = s"
  by (simp add: run_def)

text \<open>
  Claim C8, as the specification states it: for every non-negative integer \<open>N\<close>, \<^verbatim>\<open>time <N>\<close>
  and later \<^verbatim>\<open>time last\<close> leave a stored budget of exactly \<open>N\<close> seconds. The product with
  \<^verbatim>\<open>time.Second\<close> wraps around here as well: after \<^verbatim>\<open>time 9223372037\<close> and \<^verbatim>\<open>time last\<close> the
  stored budget is negative.
\<close>

theorem time_last_counterexample:
  "lastTime (run (init 0) [Cmd 5 ''time 9223372037'', Cmd 6 ''time last'']) = 9223372037 \<and>
   proc (run (init 0) [Cmd 5 ''time 9223372037'', Cmd 6 ''time last'']) = Running \<and>
   sint (TimeLeft (question (run (init 0) [Cmd 5 ''time 9223372037'', Cmd 6 ''time last'']))) =
     - 9223372036709551616"
proof -
  have f: "Fields (TrimSpace ''time 9223372037'') = [''time'', ''9223372037'']"
    "Fields (TrimSpace ''time last'') = [''time'', ''last'']"
    by (simp_all add: string_eval)
  have a: "Atoi ''9223372037'' = Some 9223372037"
    by (simp add: Atoi_def isDigit_def)
  have n: "sint (9223372037 :: GoInt) = 9223372037"
    by simp
  have p: "proc (init 0) = Running"
    by (simp add: init_def initializeQuestion_def)
  show ?thesis
    by (simp add: run_def p n startCLI_cmd_switch [OF f(1)] startCLI_cmd_switch [OF f(2)]
        switch_time case_time_numeric [OF a] case_time_last Second_def)
qed

text \<open>
  Claim C8, amended: for every integer \<open>N\<close> from 0 to 9223372036, after an accepted command
  \<^verbatim>\<open>time <N>\<close>, any commands and requests none of which is an accepted numeric \<^verbatim>\<open>time <M>\<close>,
  and then \<^verbatim>\<open>time last\<close> (the process still running), the last manual duration is \<open>N\<close> and
  the stored budget is exactly \<open>N\<close> seconds, with \<open>countUp\<close> false and the start time the
  instant of \<^verbatim>\<open>time last\<close>; text and type are what they were before \<^verbatim>\<open>time last\<close>.
\<close>

theorem time_last_restores:
  "proc s = Running \<and> Fields (TrimSpace cmd) = [''time'', a] \<and> Atoi a = Some n \<and>
   0 \<le> sint n \<and> sint n \<le> 9223372036 \<and> (\<forall>e \<in> set evs. \<not> numeric_time e) \<and>
   proc (run s (Cmd t1 cmd # evs)) = Running \<and>
   Fields (TrimSpace cmd') = [''time'', ''last''] \<longrightarrow>
     lastTime (run s (Cmd t1 cmd # evs)) = n \<and>
     question (run s (Cmd t1 cmd # evs @ [Cmd t2 cmd'])) =
       (question (run s (Cmd t1 cmd # evs)))
         \<lparr>TimeLeft := n * Second, StartTime := t2, CountUp := False\<rparr> \<and>
     sint (TimeLeft (question (run s (Cmd t1 cmd # evs @ [Cmd t2 cmd'])))) =
       sint n * 1000000000"
proof (intro impI)
  assume h: "proc s = Running \<and> Fields (TrimSpace cmd) = [''time'', a] \<and> Atoi a = Some n \<and>
   0 \<le> sint n \<and> sint n \<le> 9223372036 \<and> (\<forall>e \<in> set evs. \<not> numeric_time e) \<and>
   proc (run s (Cmd t1 cmd # evs)) = Running \<and>
   Fields (TrimSpace cmd') = [''time'', ''last'']"
  define s1 where "s1 = step s (Cmd t1 cmd)"
  define s2 where "s2 = run s1 evs"
  from h have "s1 = case_time t1 [''time'', a] s"
    by (simp add: s1_def startCLI_cmd_switch switch_time)
  with h have "lastTime s1 = n"
    by (simp add: case_time_numeric)
  with h have l2: "lastTime s2 = n"
    by (simp add: s2_def lastTime_run)
  have r2: "run s (Cmd t1 cmd # evs) = s2"
    by (simp only: s2_def s1_def run_Cons)
  have "run s (Cmd t1 cmd # evs @ [Cmd t2 cmd']) = step s2 (Cmd t2 cmd')"
    by (simp only: s2_def s1_def run_Cons run_append run_Nil)
  also have "\<dots> = case_time t2 [''time'', ''last''] s2"
    using h r2 by (simp add: startCLI_cmd_switch switch_time)
  finally have "question (run s (Cmd t1 cmd # evs @ [Cmd t2 cmd'])) =
      (question s2)\<lparr>TimeLeft := n * Second, StartTime := t2, CountUp := False\<rparr>"
    by (simp add: case_time_last l2)
  with h l2 r2 show "lastTime (run s (Cmd t1 cmd # evs)) = n \<and>
     question (run s (Cmd t1 cmd # evs @ [Cmd t2 cmd'])) =
       (question (run s (Cmd t1 cmd # evs)))
         \<lparr>TimeLeft := n * Second, StartTime := t2, CountUp := False\<rparr> \<and>
     sint (TimeLeft (question (run s (Cmd t1 cmd # evs @ [Cmd t2 cmd'])))) =
       sint n * 1000000000"
    by (simp add: sint_seconds)
qed

theorem time_last_restores_witness:
  "question (run (init 0)
      [Cmd 7 ''time 45'', Cmd 8 ''time pause'', GET 9,
       POST 10 (Inr \<lparr>Question = ''Q'', TimeLeft = 5, Type = ''waiting'', StartTime = 1,
                     CountUp = True\<rparr>),
       Cmd 11 ''time x'', Cmd 12 ''time last'']) =
     \<lparr>Question = ''Q'', TimeLeft = 45000000000, Type = ''waiting'', StartTime = 12,
      CountUp = False\<rparr> \<and>
   numeric_time (Cmd 8 (''time 7'' @ [CHR 0xC2, CHR 0xA0])) \<and>
   question (run (init 0)
      [Cmd 7 ''time 45'', Cmd 8 (''time 7'' @ [CHR 0xC2, CHR 0xA0]), Cmd 9 ''time last'']) =
     \<lparr>Question = ''Default question'', TimeLeft = 7000000000, Type = ''pomoc'', StartTime = 9,
      CountUp = False\<rparr>"
proof -
  let ?q = "\<lparr>Question = ''Q'', TimeLeft = 5, Type = ''waiting'', StartTime = 1, CountUp = True\<rparr>"
  let ?evs = "[Cmd 8 ''time pause'', GET 9, POST 10 (Inr ?q), Cmd 11 ''time x'']"
  have f: "Fields (TrimSpace ''time 45'') = [''time'', ''45'']"
    "Fields (TrimSpace ''time pause'') = [''time'', ''pause'']"
    "Fields (TrimSpace ''time x'') = [''time'', ''x'']"
    "Fields (TrimSpace ''time last'') = [''time'', ''last'']"
    by (simp_all add: string_eval)
  have a: "Atoi ''45'' = Some 45" "Atoi ''pause'' = None" "Atoi ''x'' = None"
    by (simp_all add: Atoi_def isDigit_def)
  have n: "sint (45 :: GoInt) = 45"
    by simp
  have p: "proc (init 0) = Running"
    by (simp add: init_def initializeQuestion_def)
  have e: "\<forall>e \<in> set ?evs. \<not> numeric_time e"
    by (simp add: numeric_time_def f a)
  have s1: "startCLI_cmd 7 ''time 45'' (init 0) = case_time 7 [''time'', ''45''] (init 0)"
    by (simp add: startCLI_cmd_switch [OF f(1)] switch_time)
  have i: "pause (init 0) = False"
    by (simp add: init_def initializeQuestion_def)
  have v: "validateQuestion ?q = None"
    by (simp add: validateQuestion_None)
  have r: "proc (run (init 0) (Cmd 7 ''time 45'' # ?evs)) = Running \<and>
    question (run (init 0) (Cmd 7 ''time 45'' # ?evs)) = ?q\<lparr>StartTime := 10\<rparr>"
    by (simp add: run_def p s1 case_time_numeric [OF a(1)] n
        startCLI_cmd_switch [OF f(2)] startCLI_cmd_switch [OF f(3)] switch_time
        case_time_def a print_def getQuestion_state setQuestion_def v Let_def i)
  have one: "question (run (init 0) (Cmd 7 ''time 45'' # ?evs @ [Cmd 12 ''time last''])) =
     \<lparr>Question = ''Q'', TimeLeft = 45000000000, Type = ''waiting'', StartTime = 12,
      CountUp = False\<rparr>"
    using time_last_restores [of "init 0" "''time 45''" "''45''" 45 ?evs 7 "''time last''" 12]
    by (simp add: p f a n e r Second_def)
  let ?u = "''time 7'' @ [CHR 0xC2, CHR 0xA0]"
  let ?s = "startCLI_cmd 7 ''time 45'' (init 0)"
  have u: "Fields (TrimSpace ?u) = [''time'', ''7'']"
    by (simp add: string_eval)
  have a7: "Atoi ''7'' = Some 7"
    by (simp add: Atoi_def isDigit_def)
  have n7: "sint (7 :: GoInt) = 7"
    by simp
  have k: "numeric_time (Cmd 8 ?u)"
    unfolding numeric_time_def by (simp only: event.case u) (simp add: a7)
  have ps: "proc ?s = Running"
    unfolding s1 by (simp add: case_time_numeric [OF a(1)] n p)
  have qs: "question ?s = \<lparr>Question = ''Default question'', TimeLeft = 45000000000,
      Type = ''pomoc'', StartTime = 7, CountUp = False\<rparr>"
    unfolding s1
    by (simp add: case_time_numeric [OF a(1)] n init_def initializeQuestion_def Second_def)
  have su: "startCLI_cmd 8 ?u ?s = case_time 8 [''time'', ''7''] ?s"
    by (simp only: startCLI_cmd_switch [OF u] switch_time)
  have r7: "proc (run ?s [Cmd 8 ?u]) = Running \<and>
    question (run ?s [Cmd 8 ?u]) = (question ?s)\<lparr>TimeLeft := 7000000000, StartTime := 8\<rparr>"
    unfolding run_def
    by (simp add: ps su case_time_numeric [OF a7] n7 Second_def qs del: append.simps)
  have two: "question (run ?s ([Cmd 8 ?u] @ [Cmd 9 ''time last''])) =
     \<lparr>Question = ''Default question'', TimeLeft = 7000000000, Type = ''pomoc'', StartTime = 9,
      CountUp = False\<rparr>"
    using time_last_restores [of ?s ?u "''7''" 7 "[]" 8 "''time last''" 9] u r7
    by (simp add: ps f a7 n7 qs Second_def)
  have "run (init 0) [Cmd 7 ''time 45'', Cmd 8 ?u, Cmd 9 ''time last''] =
      run ?s ([Cmd 8 ?u] @ [Cmd 9 ''time last''])"
    by (simp add: run_def p)
  with one two k show ?thesis
    by simp
qed

section \<open>Properties: the interpreter of a line\<close>

lemma spec_apply_stopped: "proc s \<noteq> Running \<Longrightarrow> foldl (spec_apply clock) s ics = s"
  by (induction ics) (simp_all add: spec_apply_def)

lemma startCLI_commands_fold:
  "startCLI_commands clock i ps s =
     foldl (spec_apply clock) s
       (filter (\<lambda>(i, cmd). cmd \<noteq> []) (zip [i ..< i + length ps] (map TrimSpace ps)))"
proof (induction ps arbitrary: i s)
  case Nil
  show ?case by simp
next
  case (Cons p ps)
  have "[i ..< i + Suc (length ps)] = i # [Suc i ..< i + Suc (length ps)]"
    by (rule upt_conv_Cons) simp
  then have u: "[i ..< i + length (p # ps)] = i # [Suc i ..< Suc i + length ps]"
    by simp
  show ?case
  proof (cases "proc s = Running")
    case False
    then show ?thesis by (simp add: spec_apply_stopped)
  next
    case True
    then show ?thesis
      by (simp only: u) (simp add: Cons.IH startCLI_cmd_def spec_apply_def Let_def)
  qed
qed

lemma startCLI_commands_TrimSpace:
  "map TrimSpace ps = map TrimSpace ps' \<Longrightarrow>
     startCLI_commands clock i ps s = startCLI_commands clock i ps' s"
proof -
  assume m: "map TrimSpace ps = map TrimSpace ps'"
  then have "length ps = length ps'"
    using length_map [of TrimSpace ps] length_map [of TrimSpace ps'] by simp
  with m show ?thesis by (simp add: startCLI_commands_fold)
qed

lemma startCLI_line_spec: "startCLI_line clock line s = spec_line clock line s"
proof -
  have m: "map TrimSpace (Split (TrimSpace line) CHR '';'') = map TrimSpace (Split line CHR '';'')"
    by (rule Split_TrimSpace) (simp_all add: asciiSpace_def)
  have "startCLI_line clock line s = startCLI_commands clock 0 (Split (TrimSpace line) CHR '';'') s"
  proof (cases "TrimSpace line = []")
    case True
    have "TrimSpace [] = []"
      by (simp add: TrimSpace_def TrimFunc_def)
    with True show ?thesis
      by (cases "proc s = Running") (simp_all add: startCLI_line_def startCLI_cmd_def)
  next
    case False
    then show ?thesis by (simp add: startCLI_line_def)
  qed
  also have "\<dots> = startCLI_commands clock 0 (Split line CHR '';'') s"
    using m by (rule startCLI_commands_TrimSpace)
  also have "\<dots> = spec_line clock line s"
    by (simp add: startCLI_commands_fold spec_line_def spec_commands_def Let_def)
  finally show ?thesis .
qed

lemma Split_no_sep: "sep \<notin> set a \<Longrightarrow> Split a sep = [a]"
  by (induction a) auto

lemma Split_append_sep: "Split (a @ sep # b) sep = Split a sep @ Split b sep"
proof (induction a)
  case Nil
  show ?case by simp
next
  case (Cons x xs)
  then show ?case
    by (cases "Split xs sep") (auto simp: Split_nonempty)
qed

lemma reports_error_print:
  "\<exists>errs. errs \<noteq> [] \<and> list_all is_error errs \<and>
      print ErrorC fmt as s = s\<lparr>out := out s @ errs\<rparr>"
  by (rule exI [of _ "[Print ErrorC fmt as]"]) (simp add: print_def is_error_def)

lemma refused_logging:
  assumes "length rest \<noteq> 1 \<or> hd rest \<notin> {''on'', ''off''}"
  shows "\<exists>fmt. case_logging (c # rest) s = print ErrorC fmt [] s"
  using assms by (cases rest) (auto simp: case_logging_def)

lemma refused_question: "case_question now [c] s = print ErrorC ''Usage: question <text>'' [] s"
  by (simp add: case_question_def)

lemma refused_time:
  assumes "length rest \<noteq> 1 \<or>
    (hd rest \<notin> {''last'', ''pause'', ''countUp''} \<and>
     (case Atoi (hd rest) of None \<Rightarrow> True | Some n \<Rightarrow> sint n < 0))"
  shows "\<exists>fmt. case_time now (c # rest) s = print ErrorC fmt [] s"
  using assms
  by (cases rest) (auto simp: case_time_def split: option.splits)

lemma refused_type:
  assumes "length rest \<noteq> 1 \<or> hd rest \<notin> {''pomoc'', ''rozstrel'', ''waiting'', ''end''}"
  shows "\<exists>fmt. case_type (c # rest) s = print ErrorC fmt [] s"
  using assms
  by (cases rest) (auto simp: case_type_def index_bool_validTypes)

lemma refused_unknown:
  assumes "c \<notin> {''logging'', ''exit'', ''question'', ''time'', ''type'', ''status'', ''help''}"
  shows "startCLI_switch now (c # rest) s =
           s\<lparr>out := out s @ [Print ErrorC ''Unknown command: %s'' [S c],
                               Print ErrorC ''Type 'help' for available commands'' []]\<rparr>"
  using assms by (simp add: startCLI_switch_def print_def)

lemma refused_switch:
  assumes "refused args"
  shows "\<exists>errs. errs \<noteq> [] \<and> list_all is_error errs \<and>
           startCLI_switch now args s = s\<lparr>out := out s @ errs\<rparr>"
proof (cases args)
  case Nil
  with assms show ?thesis by (simp add: refused_def)
next
  case (Cons c rest)
  consider "c = ''logging''" | "c = ''question''" | "c = ''time''" | "c = ''type''"
    | "c \<notin> {''logging'', ''question'', ''time'', ''type''}"
    by blast
  then show ?thesis
  proof cases
    case 1
    with assms Cons have "length rest \<noteq> 1 \<or> hd rest \<notin> {''on'', ''off''}"
      by (simp add: refused_def)
    from refused_logging [OF this, of c s] obtain fmt
      where "case_logging (c # rest) s = print ErrorC fmt [] s" ..
    with 1 Cons have "startCLI_switch now args s = print ErrorC fmt [] s"
      by (simp add: startCLI_switch_def)
    then show ?thesis by (simp only: reports_error_print)
  next
    case 2
    with assms Cons have "rest = []"
      by (simp add: refused_def)
    with 2 Cons have "startCLI_switch now args s = print ErrorC ''Usage: question <text>'' [] s"
      by (simp add: startCLI_switch_def refused_question)
    then show ?thesis by (simp only: reports_error_print)
  next
    case 3
    with assms Cons have "length rest \<noteq> 1 \<or>
      (hd rest \<notin> {''last'', ''pause'', ''countUp''} \<and>
       (case Atoi (hd rest) of None \<Rightarrow> True | Some n \<Rightarrow> sint n < 0))"
      by (simp add: refused_def)
    from refused_time [OF this, of now c s] obtain fmt
      where "case_time now (c # rest) s = print ErrorC fmt [] s" ..
    with 3 Cons have "startCLI_switch now args s = print ErrorC fmt [] s"
      by (simp add: startCLI_switch_def)
    then show ?thesis by (simp only: reports_error_print)
  next
    case 4
    with assms Cons have "length rest \<noteq> 1 \<or>
      hd rest \<notin> {''pomoc'', ''rozstrel'', ''waiting'', ''end''}"
      by (simp add: refused_def)
    from refused_type [OF this, of c s] obtain fmt
      where "case_type (c # rest) s = print ErrorC fmt [] s" ..
    with 4 Cons have "startCLI_switch now args s = print ErrorC fmt [] s"
      by (simp add: startCLI_switch_def)
    then show ?thesis by (simp only: reports_error_print)
  next
    case 5
    with assms Cons
    have "c \<notin> {''logging'', ''exit'', ''question'', ''time'', ''type'', ''status'', ''help''}"
      by (auto simp: refused_def)
    from refused_unknown [OF this, of now rest s] Cons
    have "startCLI_switch now args s =
        s\<lparr>out := out s @ [Print ErrorC ''Unknown command: %s'' [S c],
                            Print ErrorC ''Type 'help' for available commands'' []]\<rparr>"
      by simp
    then show ?thesis
      by (intro exI [of _ "[Print ErrorC ''Unknown command: %s'' [S c],
                            Print ErrorC ''Type 'help' for available commands'' []]"])
         (simp add: is_error_def)
  qed
qed

lemma Fields_Nil: "Fields [] = []"
  by (simp add: Fields_def)

lemma refused_commands:
  assumes "proc s = Running" "refused (Fields (TrimSpace cmd))"
  shows "\<exists>errs. errs \<noteq> [] \<and> list_all is_error errs \<and>
           startCLI_commands clock i (cmd # cmds) s =
             startCLI_commands clock (Suc i) cmds (s\<lparr>out := out s @ errs\<rparr>)"
proof -
  from assms(2) have "TrimSpace cmd \<noteq> []"
    by (auto simp: refused_def Fields_Nil)
  then have "startCLI_cmd (clock i) cmd s = startCLI_switch (clock i) (Fields (TrimSpace cmd)) s"
    by (simp add: startCLI_cmd_def)
  with refused_switch [OF assms(2), of "clock i" s] assms(1) show ?thesis
    by auto
qed

lemma switch_exit: "startCLI_switch now (''exit'' # rest) s = case_exit s"
  by (simp add: startCLI_switch_def)

lemma switch_help: "startCLI_switch now (''help'' # rest) s = printHelp s"
  by (simp add: startCLI_switch_def)

lemma startCLI_commands_stopped:
  "proc s \<noteq> Running \<Longrightarrow> startCLI_commands clock i cmds s = s"
  by (cases cmds) simp_all

lemma startCLI_line_pieces:
  "TrimSpace line \<noteq> [] \<Longrightarrow>
     startCLI_line clock line s = startCLI_commands clock 0 (Split (TrimSpace line) CHR '';'') s"
  by (simp add: startCLI_line_def)

text \<open>
  White space of any kind separates the words of a command: \<^verbatim>\<open>type\<close> and \<^verbatim>\<open>end\<close> with a
  no-break space between them set the type, and \<^verbatim>\<open>status\<close> between two ideographic spaces
  prints the status.
\<close>

lemma unicode_space_commands:
  "\<not> refused (Fields (TrimSpace (''type'' @ [CHR 0xC2, CHR 0xA0] @ ''end'')))"
  "startCLI_cmd 3 (''type'' @ [CHR 0xC2, CHR 0xA0] @ ''end'') s = case_type [''type'', ''end''] s"
  "Type (question (startCLI_cmd 3 (''type'' @ [CHR 0xC2, CHR 0xA0] @ ''end'') (init 0))) = ''end''"
  "startCLI_cmd 3 ([CHR 0xE3, CHR 0x80, CHR 0x80] @ ''status'' @ [CHR 0xE3, CHR 0x80, CHR 0x80]) s
     = case_status 3 s"
proof -
  show "\<not> refused (Fields (TrimSpace (''type'' @ [CHR 0xC2, CHR 0xA0] @ ''end'')))"
    by (simp only: Fields_TrimSpace_examples(1)) (simp add: refused_def)
  show t: "startCLI_cmd 3 (''type'' @ [CHR 0xC2, CHR 0xA0] @ ''end'') s =
      case_type [''type'', ''end''] s" for s
    by (simp only: startCLI_cmd_switch [OF Fields_TrimSpace_examples(1)])
       (simp add: startCLI_switch_def)
  show "Type (question (startCLI_cmd 3 (''type'' @ [CHR 0xC2, CHR 0xA0] @ ''end'') (init 0))) =
      ''end''"
    by (simp only: t) (simp add: case_type_def index_bool_validTypes print_def Let_def)
  show "startCLI_cmd 3 ([CHR 0xE3, CHR 0x80, CHR 0x80] @ ''status'' @ [CHR 0xE3, CHR 0x80, CHR 0x80]) s
     = case_status 3 s"
    by (simp only: startCLI_cmd_switch [OF Fields_TrimSpace_examples(2)])
       (simp add: startCLI_switch_def)
qed

text \<open>
  Claim C9, as the specification states it: a command with wrong arity is reported as an
  error and processing goes on with the next command of the line. The cases \<^verbatim>\<open>exit\<close>,
  \<^verbatim>\<open>status\<close> and \<^verbatim>\<open>help\<close> of the switch never read \<^verbatim>\<open>len(args)\<close>: \<^verbatim>\<open>exit now\<close> ends the
  process without an error line, the \<^verbatim>\<open>time 5\<close> after it is never run, and \<^verbatim>\<open>help me\<close>
  prints the help.
\<close>

theorem interpreter_arity_counterexample:
  "startCLI_line int ''exit now; time 5'' (init 0) =
     (init 0)\<lparr>out := out (init 0) @ [Print Success ''Shutting down server...'' []],
              proc := Exited\<rparr> \<and>
   startCLI_line int ''help me'' (init 0) = printHelp (init 0)"
proof -
  have t: "TrimSpace ''exit now; time 5'' = ''exit now; time 5''"
    "TrimSpace ''help me'' = ''help me''" "TrimSpace ''exit now'' = ''exit now''"
    by (simp_all add: string_eval)
  have e: "''exit now; time 5'' = ''exit now'' @ CHR '';'' # '' time 5''"
    by simp
  have s1: "Split ''exit now; time 5'' CHR '';'' = [''exit now'', '' time 5'']"
    unfolding e by (simp only: Split_append_sep) (simp add: Split_no_sep del: Split.simps)
  have s2: "Split ''help me'' CHR '';'' = [''help me'']"
    by (simp add: Split_no_sep del: Split.simps)
  have f: "Fields ''exit now'' = [''exit'', ''now'']" "Fields ''help me'' = [''help'', ''me'']"
    by (simp_all add: string_eval)
  have p: "proc (init 0) = Running"
    by (simp add: init_def initializeQuestion_def)
  have x: "startCLI_cmd now ''exit now'' s = case_exit s" for now s
    by (simp only: startCLI_cmd_switch [of "''exit now''", unfolded t, OF f(1)] switch_exit)
  have h: "startCLI_cmd now ''help me'' s = printHelp s" for now s
    by (simp only: startCLI_cmd_switch [of "''help me''", unfolded t, OF f(2)] switch_help)
  have "startCLI_line int ''exit now; time 5'' (init 0) =
      startCLI_commands int 0 [''exit now'', '' time 5''] (init 0)"
    by (simp add: startCLI_line_pieces t s1 del: startCLI_commands.simps Split.simps)
  also have "\<dots> = startCLI_commands int (Suc 0) ['' time 5''] (case_exit (init 0))"
    by (subst startCLI_commands.simps(2)) (simp add: p x del: startCLI_commands.simps)
  also have "\<dots> = case_exit (init 0)"
    by (rule startCLI_commands_stopped) (simp add: case_exit_def)
  finally have a: "startCLI_line int ''exit now; time 5'' (init 0) = case_exit (init 0)" .
  have "startCLI_line int ''help me'' (init 0) = startCLI_commands int 0 [''help me''] (init 0)"
    by (simp add: startCLI_line_pieces t s2 del: startCLI_commands.simps Split.simps)
  also have "\<dots> = printHelp (init 0)"
    using p by (simp add: h)
  finally show ?thesis
    by (simp add: a case_exit_def print_def)
qed

text \<open>
  Claim C9, amended: for every input line the interpreter does what the specification
  words: it splits the line on \<^verbatim>\<open>;\<close>, trims each piece, skips the empty pieces and applies
  the others in order, until one of them is \<^verbatim>\<open>exit\<close>. A \<^verbatim>\<open>logging\<close>, \<^verbatim>\<open>time\<close> or \<^verbatim>\<open>type\<close>
  command without exactly one argument, a \<^verbatim>\<open>question\<close> without text, an argument that
  the command does not know and an unknown leading word are reported by error lines,
  change nothing else of the state, and the rest of the line is processed. (Words after
  \<^verbatim>\<open>status\<close>, \<^verbatim>\<open>help\<close> and \<^verbatim>\<open>exit\<close> are ignored.) Trimming and the words of a command
  are those of \<^verbatim>\<open>strings.TrimSpace\<close> and \<^verbatim>\<open>strings.Fields\<close>, for white space of any kind.
\<close>

theorem interpreter_line:
  "startCLI_line clock line s = spec_line clock line s \<and>
   (refused args \<longrightarrow>
      (\<exists>errs. errs \<noteq> [] \<and> list_all is_error errs \<and>
         startCLI_switch now args s = s\<lparr>out := out s @ errs\<rparr>)) \<and>
   (proc s = Running \<and> refused (Fields (TrimSpace cmd)) \<longrightarrow>
      (\<exists>errs. errs \<noteq> [] \<and> list_all is_error errs \<and>
         startCLI_commands clock i (cmd # cmds) s =
           startCLI_commands clock (Suc i) cmds (s\<lparr>out := out s @ errs\<rparr>)))"
  using startCLI_line_spec [of clock line s] refused_switch [of args now s]
    refused_commands [of s cmd clock i cmds]
  by blast

theorem interpreter_line_witness:
  "refused [''time'', ''abc''] \<and> refused [''bogus''] \<and>
   startCLI_line int ''time abc; bogus ;; type end'' (init 0) =
     spec_line int ''time abc; bogus ;; type end'' (init 0) \<and>
   (\<exists>errs. errs \<noteq> [] \<and> list_all is_error errs \<and>
      startCLI_switch 3 [''time'', ''abc''] (init 0) = (init 0)\<lparr>out := out (init 0) @ errs\<rparr>) \<and>
   (\<exists>errs. errs \<noteq> [] \<and> list_all is_error errs \<and>
      startCLI_commands int 0 ['' bogus '', ''type end''] (init 0) =
        startCLI_commands int (Suc 0) [''type end''] ((init 0)\<lparr>out := out (init 0) @ errs\<rparr>)) \<and>
   (\<exists>errs. errs \<noteq> [] \<and> list_all is_error errs \<and>
      startCLI_commands int 0
        [[CHR 0xE3, CHR 0x80, CHR 0x80] @ ''bogus'' @ [CHR 0xC2, CHR 0xA0], ''type end'']
        (init 0) =
        startCLI_commands int (Suc 0) [''type end''] ((init 0)\<lparr>out := out (init 0) @ errs\<rparr>))"
proof -
  have r: "refused [''time'', ''abc'']" "refused [''bogus'']"
    by (simp_all add: refused_def Atoi_def isDigit_def)
  have f: "Fields (TrimSpace '' bogus '') = [''bogus'']"
    "Fields (TrimSpace ([CHR 0xE3, CHR 0x80, CHR 0x80] @ ''bogus'' @ [CHR 0xC2, CHR 0xA0])) =
       [''bogus'']"
    by (simp_all add: string_eval)
  have p: "proc (init 0) = Running"
    by (simp add: init_def initializeQuestion_def)
  show ?thesis
    using interpreter_line [of int "''time abc; bogus ;; type end''" "init 0"
        "[''time'', ''abc'']" 3 "'' bogus ''" 0 "[''type end'']"]
      interpreter_line [of int "''time abc; bogus ;; type end''" "init 0"
        "[''time'', ''abc'']" 3 "[CHR 0xE3, CHR 0x80, CHR 0x80] @ ''bogus'' @ [CHR 0xC2, CHR 0xA0]"
        0 "[''type end'']"]
    by (simp only: r f p simp_thms)
qed

section \<open>Properties: the shell never indexes an empty argument list\<close>

lemma proc_cases:
  "proc (case_logging args s) = proc s"
  "proc (case_question now args s) = proc s"
  "proc (case_time now args s) = proc s"
  "proc (case_type args s) = proc s"
  "proc (case_status now s) = proc s"
  "proc (printHelp s) = proc s"
  "proc (print p fmt as s) = proc s"
  "proc (case_exit s) = Exited"
  by (simp_all add: case_logging_def case_question_def case_time_def case_type_def
      case_status_def printHelp_def print_def case_exit_def Let_def split: option.splits)

lemma startCLI_cmd_no_panic:
  "proc (startCLI_cmd now cmd s) = Panicked \<Longrightarrow> proc s = Panicked"
proof (cases "TrimSpace cmd = []")
  case True
  assume "proc (startCLI_cmd now cmd s) = Panicked"
  with True show ?thesis by (simp add: startCLI_cmd_def)
next
  case False
  assume a: "proc (startCLI_cmd now cmd s) = Panicked"
  from False obtain c rest where f: "Fields (TrimSpace cmd) = c # rest"
    using Fields_TrimSpace_nonempty [of cmd] by (cases "Fields (TrimSpace cmd)") auto
  have "proc (startCLI_switch now (c # rest) s) = proc s \<or>
        proc (startCLI_switch now (c # rest) s) = Exited"
    by (simp add: startCLI_switch_def proc_cases)
  with a f show ?thesis
    by (auto simp: startCLI_cmd_switch)
qed

end
